theory Spec2Isabelle
  imports Complex_Main
begin

section \<open>JavaScript numbers\<close>

text \<open>
  The program computes with JavaScript numbers, the binary64 numbers of IEEE 754. The
  value \<open>Fin x\<close> is the number equal to the real \<open>x\<close>, with \<open>Fin 0\<close> the positive zero;
  \<open>MZero\<close> is the negative zero; \<open>PInf\<close>, \<open>NInf\<close> and \<open>NaN\<close> are the non-finite
  values. Every arithmetic operation computes the real result and rounds it to the
  nearest number with a 53-bit significand, ties to the even one, with gradual
  underflow below \<open>2^-1022\<close> and overflow to infinity from \<open>2^1024\<close> on.
\<close>

datatype jsnum = Fin real | MZero | PInf | NInf | NaN

fun finito :: "jsnum \<Rightarrow> bool" where
  "finito (Fin x) = True"
| "finito MZero = True"
| "finito PInf = False"
| "finito NInf = False"
| "finito NaN = False"

text \<open>The real value of a finite number, and the sign bit of a number.\<close>

fun valor :: "jsnum \<Rightarrow> real" where
  "valor (Fin x) = x"
| "valor MZero = 0"
| "valor PInf = 0"
| "valor NInf = 0"
| "valor NaN = 0"

fun negativo :: "jsnum \<Rightarrow> bool" where
  "negativo (Fin x) = (x < 0)"
| "negativo MZero = True"
| "negativo PInf = False"
| "negativo NInf = True"
| "negativo NaN = False"

definition zero_com_sinal :: "bool \<Rightarrow> jsnum" where
  "zero_com_sinal s = (if s then MZero else Fin 0)"

definition infinito_com_sinal :: "bool \<Rightarrow> jsnum" where
  "infinito_com_sinal s = (if s then NInf else PInf)"

subsection \<open>Rounding\<close>

text \<open>
  The binary exponent of a positive real \<open>a\<close>: the \<open>e\<close> with \<open>2^e \<le> a < 2^(e+1)\<close>, kept
  between \<open>-1022\<close> (below it the numbers are subnormal) and \<open>1024\<close> (there the result
  overflows). It is found by halving or doubling \<open>a\<close>, at most 1024 times.
\<close>

primrec expo_acima :: "nat \<Rightarrow> real \<Rightarrow> nat" where
  "expo_acima 0 a = 0"
| "expo_acima (Suc k) a = (if 2 \<le> a then Suc (expo_acima k (a / 2)) else 0)"

primrec expo_abaixo :: "nat \<Rightarrow> real \<Rightarrow> nat" where
  "expo_abaixo 0 a = 0"
| "expo_abaixo (Suc k) a = (if a < 1 then Suc (expo_abaixo k (a * 2)) else 0)"

definition expoente :: "real \<Rightarrow> int" where
  "expoente a = (if 1 \<le> a then int (expo_acima 1024 a) else - int (expo_abaixo 1022 a))"

text \<open>The integer nearest to \<open>y\<close>, the even one of two that are equally near.\<close>

definition round_even :: "real \<Rightarrow> int" where
  "round_even y =
     (let f = \<lfloor>y\<rfloor>; d = y - of_int f
      in if d < 1 / 2 then f else if 1 / 2 < d then f + 1 else if even f then f else f + 1)"

text \<open>
  The number nearest to the real \<open>x\<close>. A result that rounds to zero keeps the sign of
  \<open>x\<close>. The operations below call it for a non-zero \<open>x\<close> only: the sign of an exact
  zero depends on the operation.
\<close>

definition arredonda :: "real \<Rightarrow> jsnum" where
  "arredonda x =
     (if x = 0 then Fin 0
      else
        let a = \<bar>x\<bar>;
            u = 2 powi (expoente a - 52);
            v = of_int (round_even (a / u)) * u
        in if v = 0 then zero_com_sinal (x < 0)
           else if 2 ^ 1024 \<le> v then infinito_com_sinal (x < 0)
           else Fin (if x < 0 then - v else v))"

subsection \<open>Arithmetic\<close>

definition js_neg :: "jsnum \<Rightarrow> jsnum" where
  "js_neg a =
     (case a of
        Fin x \<Rightarrow> (if x = 0 then MZero else Fin (- x))
      | MZero \<Rightarrow> Fin 0
      | PInf \<Rightarrow> NInf
      | NInf \<Rightarrow> PInf
      | NaN \<Rightarrow> NaN)"

definition js_add :: "jsnum \<Rightarrow> jsnum \<Rightarrow> jsnum" where
  "js_add a b =
     (if a = NaN \<or> b = NaN then NaN
      else if finito a \<and> finito b then
        (if a = MZero \<and> b = MZero then MZero
         else if valor a + valor b = 0 then Fin 0
         else arredonda (valor a + valor b))
      else if finito a then b
      else if finito b then a
      else if a = b then a
      else NaN)"

definition js_mul :: "jsnum \<Rightarrow> jsnum \<Rightarrow> jsnum" where
  "js_mul a b =
     (if a = NaN \<or> b = NaN then NaN
      else if finito a \<and> finito b then
        (if valor a * valor b = 0 then zero_com_sinal (negativo a \<noteq> negativo b)
         else arredonda (valor a * valor b))
      else if (finito a \<and> valor a = 0) \<or> (finito b \<and> valor b = 0) then NaN
      else infinito_com_sinal (negativo a \<noteq> negativo b))"

definition js_div :: "jsnum \<Rightarrow> jsnum \<Rightarrow> jsnum" where
  "js_div a b =
     (if a = NaN \<or> b = NaN then NaN
      else if finito a \<and> finito b then
        (if valor b = 0 then
           (if valor a = 0 then NaN else infinito_com_sinal (negativo a \<noteq> negativo b))
         else if valor a = 0 then zero_com_sinal (negativo a \<noteq> negativo b)
         else arredonda (valor a / valor b))
      else if finito a then zero_com_sinal (negativo a \<noteq> negativo b)
      else if finito b then infinito_com_sinal (negativo a \<noteq> negativo b)
      else NaN)"

instantiation jsnum :: "{plus, minus, uminus, times, inverse}"
begin

definition plus_jsnum :: "jsnum \<Rightarrow> jsnum \<Rightarrow> jsnum" where
  "plus_jsnum a b = js_add a b"

definition uminus_jsnum :: "jsnum \<Rightarrow> jsnum" where
  "uminus_jsnum a = js_neg a"

definition minus_jsnum :: "jsnum \<Rightarrow> jsnum \<Rightarrow> jsnum" where
  "minus_jsnum a b = js_add a (js_neg b)"

definition times_jsnum :: "jsnum \<Rightarrow> jsnum \<Rightarrow> jsnum" where
  "times_jsnum a b = js_mul a b"

definition divide_jsnum :: "jsnum \<Rightarrow> jsnum \<Rightarrow> jsnum" where
  "divide_jsnum a b = js_div a b"

definition inverse_jsnum :: "jsnum \<Rightarrow> jsnum" where
  "inverse_jsnum a = js_div (Fin 1) a"

instance ..

end

text \<open>The comparisons \<open>a < b\<close>, \<open>a > b\<close> and \<open>a <= b\<close>: false when either side is NaN.\<close>

definition js_lt :: "jsnum \<Rightarrow> jsnum \<Rightarrow> bool" where
  "js_lt a b =
     (if a = NaN \<or> b = NaN then False
      else if finito a \<and> finito b then valor a < valor b
      else if a = NInf then b \<noteq> NInf
      else if b = PInf then a \<noteq> PInf
      else False)"

definition js_gt :: "jsnum \<Rightarrow> jsnum \<Rightarrow> bool" where
  "js_gt a b = js_lt b a"

definition js_le :: "jsnum \<Rightarrow> jsnum \<Rightarrow> bool" where
  "js_le a b = (a \<noteq> NaN \<and> b \<noteq> NaN \<and> \<not> js_lt b a)"

fun Math_floor :: "jsnum \<Rightarrow> jsnum" where
  "Math_floor (Fin x) = Fin (of_int \<lfloor>x\<rfloor>)"
| "Math_floor MZero = MZero"
| "Math_floor PInf = PInf"
| "Math_floor NInf = NInf"
| "Math_floor NaN = NaN"

fun Math_abs :: "jsnum \<Rightarrow> jsnum" where
  "Math_abs (Fin x) = Fin \<bar>x\<bar>"
| "Math_abs MZero = Fin 0"
| "Math_abs PInf = PInf"
| "Math_abs NInf = PInf"
| "Math_abs NaN = NaN"

text \<open>\<open>Math.max(a, b)\<close>: NaN when either is NaN, and the positive zero of the two zeros.\<close>

definition Math_max :: "jsnum \<Rightarrow> jsnum \<Rightarrow> jsnum" where
  "Math_max a b =
     (if a = NaN \<or> b = NaN then NaN
      else if js_lt a b then b
      else if js_lt b a then a
      else if a = MZero then b
      else a)"

text \<open>
  \<open>Math.exp(x)\<close>. The language fixes the result at the zeros (1), at the infinities
  and at NaN, and leaves the rest to the engine, as an approximation of \<open>e^x\<close>. That
  approximation is the parameter \<open>aprox\<close>.
\<close>

fun Math_exp :: "(real \<Rightarrow> jsnum) \<Rightarrow> jsnum \<Rightarrow> jsnum" where
  "Math_exp aprox (Fin x) = (if x = 0 then Fin 1 else aprox x)"
| "Math_exp aprox MZero = Fin 1"
| "Math_exp aprox PInf = PInf"
| "Math_exp aprox NInf = Fin 0"
| "Math_exp aprox NaN = NaN"

text \<open>
  \<open>parseFloat(t.toFixed(6))\<close>. For a finite \<open>t\<close> of magnitude below \<open>10^21\<close>,
  \<open>toFixed(6)\<close> prints the integer \<open>n\<close> for which \<open>n / 10^6\<close> is nearest to \<open>\<bar>t\<bar>\<close>
  (the larger \<open>n\<close> on a tie), with a minus sign when \<open>t < 0\<close>, and \<open>parseFloat\<close> reads
  the number nearest to that decimal. The negative zero prints without a sign. From
  \<open>10^21\<close> on, and for the non-finite values, \<open>toFixed\<close> prints the number itself and
  \<open>parseFloat\<close> reads it back.
\<close>

fun parseFloat_toFixed6 :: "jsnum \<Rightarrow> jsnum" where
  "parseFloat_toFixed6 (Fin x) =
     (if 10 ^ 21 \<le> \<bar>x\<bar> then Fin x
      else if \<lfloor>\<bar>x\<bar> * 10 ^ 6 + 1 / 2\<rfloor> = 0 then zero_com_sinal (x < 0)
      else arredonda (sgn x * of_int \<lfloor>\<bar>x\<bar> * 10 ^ 6 + 1 / 2\<rfloor> / 10 ^ 6))"
| "parseFloat_toFixed6 MZero = Fin 0"
| "parseFloat_toFixed6 PInf = PInf"
| "parseFloat_toFixed6 NInf = NInf"
| "parseFloat_toFixed6 NaN = NaN"

declare parseFloat_toFixed6.simps [simp del]

section \<open>The logistic model and its closed-form solution\<close>

text \<open>
  \<open>modeloLogistico\<close> and \<open>solucaoExata\<close> as the component file defines them.
  \<open>solucaoExata\<close> calls \<open>Math.exp\<close>, so it takes the engine's approximation \<open>aprox\<close>.
\<close>

definition modeloLogistico :: "jsnum \<Rightarrow> jsnum \<Rightarrow> jsnum \<Rightarrow> jsnum \<Rightarrow> jsnum" where
  "modeloLogistico t y r K = r * y * (Fin 1 - y / K)"

definition solucaoExata :: "(real \<Rightarrow> jsnum) \<Rightarrow> jsnum \<Rightarrow> jsnum \<Rightarrow> jsnum \<Rightarrow> jsnum \<Rightarrow> jsnum" where
  "solucaoExata aprox t r K y0 = (K * y0) / (y0 + (K - y0) * Math_exp aprox (- r * t))"

text \<open>
  Modelled from the spec: the module \<open>utils/modeloLogistico\<close>, imported by the modules
  of \<open>rungeKutta4\<close> and \<open>euler\<close>, is not among the sources. The spec gives its contract:
  \<open>f(t, y, r, K)\<close> returns \<open>r * y * (1 - y / K)\<close>, and \<open>t\<close> is accepted but unused.
\<close>

definition modeloLogistico_modulo :: "jsnum \<Rightarrow> jsnum \<Rightarrow> jsnum \<Rightarrow> jsnum \<Rightarrow> jsnum" where
  "modeloLogistico_modulo t y r K = r * y * (Fin 1 - y / K)"

text \<open>
  Modelled from the spec: the module \<open>utils/solucaoExata\<close>, imported by
  \<open>ModeloLogisticoCorrigido\<close>, is not among the sources. The spec gives its contract:
  \<open>exact(t, r, K, y0)\<close> returns \<open>K * y0 / (y0 + (K - y0) * e^(- r * t))\<close>.
\<close>

definition solucaoExata_modulo ::
  "(real \<Rightarrow> jsnum) \<Rightarrow> jsnum \<Rightarrow> jsnum \<Rightarrow> jsnum \<Rightarrow> jsnum \<Rightarrow> jsnum" where
  "solucaoExata_modulo aprox t r K y0 = (K * y0) / (y0 + (K - y0) * Math_exp aprox (- r * t))"

section \<open>The integrators\<close>

text \<open>
  A call either returns a value or throws. A call that does neither, because a loop
  never ends, is the value \<open>None\<close> of the option around this type.
\<close>

datatype erro = ReferenceError

datatype 'a saida = Retorna 'a | Lanca erro

text \<open>A trajectory point \<open>{t, y}\<close>.\<close>

record ponto =
  pt_t :: jsnum
  pt_y :: jsnum

text \<open>The variables an integrator updates: \<open>y\<close>, \<open>t\<close> and the array \<open>resultado\<close>.\<close>

record estado =
  var_y :: jsnum
  var_t :: jsnum
  resultado :: "ponto list"

text \<open>
  \<open>for (let i = 0; i < n; i++) corpo\<close>, entered with the counter at \<open>i\<close>. The bound \<open>n\<close>
  is a JavaScript number: with \<open>n = Infinity\<close> the test never fails, and the loop ends
  only if its body throws. The limits that memory and the largest array length put
  on the number of iterations are not modelled.
\<close>

partial_function (option) for_i ::
  "jsnum \<Rightarrow> (estado \<Rightarrow> estado saida) \<Rightarrow> nat \<Rightarrow> estado \<Rightarrow> estado saida option" where
  "for_i n corpo i s =
     (if js_lt (Fin (real i)) n
      then (case corpo s of
              Lanca e \<Rightarrow> Some (Lanca e)
            | Retorna s' \<Rightarrow> for_i n corpo (Suc i) s')
      else Some (Retorna s))"

text \<open>The state before the loop: \<open>y = y0\<close>, \<open>t = 0\<close>, and \<open>resultado\<close> holding \<open>{t, y}\<close>.\<close>

definition inicio :: "jsnum \<Rightarrow> estado" where
  "inicio y0 = \<lparr>var_y = y0, var_t = Fin 0, resultado = [\<lparr>pt_t = Fin 0, pt_y = y0\<rparr>]\<rparr>"

subsection \<open>The modules under \<open>app/utils\<close>\<close>

definition rungeKutta4_corpo :: "jsnum \<Rightarrow> jsnum \<Rightarrow> jsnum \<Rightarrow> estado \<Rightarrow> estado saida" where
  "rungeKutta4_corpo r K h s =
     (let k1 = modeloLogistico_modulo (var_t s) (var_y s) r K;
          k2 = modeloLogistico_modulo (var_t s + h / Fin 2) (var_y s + (h / Fin 2) * k1) r K;
          k3 = modeloLogistico_modulo (var_t s + h / Fin 2) (var_y s + (h / Fin 2) * k2) r K;
          k4 = modeloLogistico_modulo (var_t s + h) (var_y s + h * k3) r K;
          y = var_y s + (h / Fin 6) * (k1 + Fin 2 * k2 + Fin 2 * k3 + k4);
          t = var_t s + h
      in Retorna \<lparr>var_y = y, var_t = t,
           resultado = resultado s @ [\<lparr>pt_t = parseFloat_toFixed6 t, pt_y = y\<rparr>]\<rparr>)"

definition rungeKutta4 ::
  "jsnum \<Rightarrow> jsnum \<Rightarrow> jsnum \<Rightarrow> jsnum \<Rightarrow> jsnum \<Rightarrow> ponto list saida option" where
  "rungeKutta4 r K y0 tf h =
     (let n = Math_floor (tf / h)
      in map_option (map_saida resultado) (for_i n (rungeKutta4_corpo r K h) 0 (inicio y0)))"

definition euler_corpo :: "jsnum \<Rightarrow> jsnum \<Rightarrow> jsnum \<Rightarrow> estado \<Rightarrow> estado saida" where
  "euler_corpo r K h s =
     (let dydt = modeloLogistico_modulo (var_t s) (var_y s) r K;
          y = var_y s + h * dydt;
          t = var_t s + h
      in Retorna \<lparr>var_y = y, var_t = t,
           resultado = resultado s @ [\<lparr>pt_t = parseFloat_toFixed6 t, pt_y = y\<rparr>]\<rparr>)"

definition euler :: "jsnum \<Rightarrow> jsnum \<Rightarrow> jsnum \<Rightarrow> jsnum \<Rightarrow> jsnum \<Rightarrow> ponto list saida option" where
  "euler r K y0 tf h =
     (let n = Math_floor (tf / h)
      in map_option (map_saida resultado) (for_i n (euler_corpo r K h) 0 (inicio y0)))"

text \<open>
  The module of \<open>eulerAprimorado\<close> calls \<open>modeloLogistico\<close> without importing or
  defining it (the modules of \<open>rungeKutta4\<close> and \<open>euler\<close> open with the import). The
  name is unresolved when the loop body evaluates it, which throws ReferenceError.
\<close>

definition modeloLogistico_nao_resolvido :: "jsnum \<Rightarrow> jsnum \<Rightarrow> jsnum \<Rightarrow> jsnum \<Rightarrow> jsnum saida" where
  "modeloLogistico_nao_resolvido t y r K = Lanca ReferenceError"

definition eulerAprimorado_corpo :: "jsnum \<Rightarrow> jsnum \<Rightarrow> jsnum \<Rightarrow> estado \<Rightarrow> estado saida" where
  "eulerAprimorado_corpo r K h s =
     (case modeloLogistico_nao_resolvido (var_t s) (var_y s) r K of
        Lanca e \<Rightarrow> Lanca e
      | Retorna k1 \<Rightarrow>
          (case modeloLogistico_nao_resolvido (var_t s + h) (var_y s + h * k1) r K of
             Lanca e \<Rightarrow> Lanca e
           | Retorna k2 \<Rightarrow>
               (let y = var_y s + (h / Fin 2) * (k1 + k2);
                    t = var_t s + h
                in Retorna \<lparr>var_y = y, var_t = t,
                     resultado = resultado s @ [\<lparr>pt_t = parseFloat_toFixed6 t, pt_y = y\<rparr>]\<rparr>)))"

definition eulerAprimorado ::
  "jsnum \<Rightarrow> jsnum \<Rightarrow> jsnum \<Rightarrow> jsnum \<Rightarrow> jsnum \<Rightarrow> ponto list saida option" where
  "eulerAprimorado r K y0 tf h =
     (let n = Math_floor (tf / h)
      in map_option (map_saida resultado) (for_i n (eulerAprimorado_corpo r K h) 0 (inicio y0)))"

subsection \<open>The integrators written inline in \<open>ModeloLogisticoMultiplo\<close>'s file\<close>

text \<open>They push \<open>{t, y}\<close> with the accumulated \<open>t\<close> as it is.\<close>

definition euler_inline_corpo :: "jsnum \<Rightarrow> jsnum \<Rightarrow> jsnum \<Rightarrow> estado \<Rightarrow> estado saida" where
  "euler_inline_corpo r K h s =
     (let dydt = modeloLogistico (var_t s) (var_y s) r K;
          y = var_y s + h * dydt;
          t = var_t s + h
      in Retorna \<lparr>var_y = y, var_t = t, resultado = resultado s @ [\<lparr>pt_t = t, pt_y = y\<rparr>]\<rparr>)"

definition euler_inline ::
  "jsnum \<Rightarrow> jsnum \<Rightarrow> jsnum \<Rightarrow> jsnum \<Rightarrow> jsnum \<Rightarrow> ponto list saida option" where
  "euler_inline r K y0 tf h =
     (let n = Math_floor (tf / h)
      in map_option (map_saida resultado) (for_i n (euler_inline_corpo r K h) 0 (inicio y0)))"

definition eulerAprimorado_inline_corpo :: "jsnum \<Rightarrow> jsnum \<Rightarrow> jsnum \<Rightarrow> estado \<Rightarrow> estado saida" where
  "eulerAprimorado_inline_corpo r K h s =
     (let k1 = modeloLogistico (var_t s) (var_y s) r K;
          k2 = modeloLogistico (var_t s + h) (var_y s + h * k1) r K;
          y = var_y s + (h / Fin 2) * (k1 + k2);
          t = var_t s + h
      in Retorna \<lparr>var_y = y, var_t = t, resultado = resultado s @ [\<lparr>pt_t = t, pt_y = y\<rparr>]\<rparr>)"

definition eulerAprimorado_inline ::
  "jsnum \<Rightarrow> jsnum \<Rightarrow> jsnum \<Rightarrow> jsnum \<Rightarrow> jsnum \<Rightarrow> ponto list saida option" where
  "eulerAprimorado_inline r K y0 tf h =
     (let n = Math_floor (tf / h)
      in map_option (map_saida resultado)
           (for_i n (eulerAprimorado_inline_corpo r K h) 0 (inicio y0)))"

definition rungeKutta4_inline_corpo :: "jsnum \<Rightarrow> jsnum \<Rightarrow> jsnum \<Rightarrow> estado \<Rightarrow> estado saida" where
  "rungeKutta4_inline_corpo r K h s =
     (let k1 = modeloLogistico (var_t s) (var_y s) r K;
          k2 = modeloLogistico (var_t s + h / Fin 2) (var_y s + (h / Fin 2) * k1) r K;
          k3 = modeloLogistico (var_t s + h / Fin 2) (var_y s + (h / Fin 2) * k2) r K;
          k4 = modeloLogistico (var_t s + h) (var_y s + h * k3) r K;
          y = var_y s + (h / Fin 6) * (k1 + Fin 2 * k2 + Fin 2 * k3 + k4);
          t = var_t s + h
      in Retorna \<lparr>var_y = y, var_t = t, resultado = resultado s @ [\<lparr>pt_t = t, pt_y = y\<rparr>]\<rparr>)"

definition rungeKutta4_inline ::
  "jsnum \<Rightarrow> jsnum \<Rightarrow> jsnum \<Rightarrow> jsnum \<Rightarrow> jsnum \<Rightarrow> ponto list saida option" where
  "rungeKutta4_inline r K y0 tf h =
     (let n = Math_floor (tf / h)
      in map_option (map_saida resultado) (for_i n (rungeKutta4_inline_corpo r K h) 0 (inicio y0)))"

section \<open>The comparison of the methods\<close>

text \<open>
  \<open>Array.from({length: len}, (_, i) => f i)\<close>. The length is \<open>len\<close> cut to an integer,
  and zero when \<open>len\<close> is negative, a zero or NaN. No array of infinite length is
  built: the call does not return one, which is the value \<open>None\<close>. The limits that
  memory and the largest array length put on a finite \<open>len\<close> are not modelled.
\<close>

definition Array_from :: "jsnum \<Rightarrow> (nat \<Rightarrow> 'a) \<Rightarrow> 'a list option" where
  "Array_from len f =
     (case len of
        Fin k \<Rightarrow> Some (map f [0..<nat \<lfloor>k\<rfloor>])
      | MZero \<Rightarrow> Some []
      | PInf \<Rightarrow> None
      | NInf \<Rightarrow> Some []
      | NaN \<Rightarrow> Some [])"

text \<open>The time grid of \<open>ModeloLogisticoMultiplo\<close>: \<open>i * h\<close>.\<close>

definition tempos_multiplo :: "jsnum \<Rightarrow> jsnum \<Rightarrow> jsnum list option" where
  "tempos_multiplo tf h =
     (let nPontos = Math_floor (tf / h) + Fin 1
      in Array_from nPontos (\<lambda>i. Fin (real i) * h))"

text \<open>The time grid of \<open>ModeloLogisticoCorrigido\<close>: \<open>parseFloat((i * h).toFixed(6))\<close>.\<close>

definition tempos_corrigido :: "jsnum \<Rightarrow> jsnum \<Rightarrow> jsnum list option" where
  "tempos_corrigido tf h =
     (let nPontos = Math_floor (tf / h) + Fin 1
      in Array_from nPontos (\<lambda>i. parseFloat_toFixed6 (Fin (real i) * h)))"

text \<open>An initial condition \<open>{y0, ativo}\<close>.\<close>

record condicao =
  cond_y0 :: jsnum
  ativo :: bool

text \<open>The four series computed for one active initial condition.\<close>

record solucao =
  sol_y0 :: jsnum
  sol_idx :: nat
  sol_exata :: "jsnum list"
  sol_euler :: "jsnum list"
  sol_eulerApr :: "jsnum list"
  sol_rk4 :: "jsnum list"

text \<open>
  The function mapped over the active conditions in \<open>ModeloLogisticoCorrigido\<close>: the
  analytic series on the grid, then the three module integrators in the order of
  the source. The first of them that throws or does not return ends the call.
\<close>

definition calcular_solucao ::
  "(real \<Rightarrow> jsnum) \<Rightarrow> jsnum \<Rightarrow> jsnum \<Rightarrow> jsnum \<Rightarrow> jsnum \<Rightarrow> jsnum list \<Rightarrow> nat \<times> condicao \<Rightarrow>
   solucao saida option" where
  "calcular_solucao aprox r K tf h grade ic =
     (case ic of (idx, cond) \<Rightarrow>
        (let exata = map (\<lambda>t. solucaoExata_modulo aprox t r K (cond_y0 cond)) grade
         in case euler r K (cond_y0 cond) tf h of
              None \<Rightarrow> None
            | Some (Lanca e) \<Rightarrow> Some (Lanca e)
            | Some (Retorna eulerRes) \<Rightarrow>
                (case eulerAprimorado r K (cond_y0 cond) tf h of
                   None \<Rightarrow> None
                 | Some (Lanca e) \<Rightarrow> Some (Lanca e)
                 | Some (Retorna eulerAprRes) \<Rightarrow>
                     (case rungeKutta4 r K (cond_y0 cond) tf h of
                        None \<Rightarrow> None
                      | Some (Lanca e) \<Rightarrow> Some (Lanca e)
                      | Some (Retorna rk4Res) \<Rightarrow>
                          Some (Retorna
                            \<lparr>sol_y0 = cond_y0 cond, sol_idx = idx, sol_exata = exata,
                             sol_euler = map pt_y eulerRes,
                             sol_eulerApr = map pt_y eulerAprRes,
                             sol_rk4 = map pt_y rk4Res\<rparr>)))))"

text \<open>
  \<open>condicoesAtivas.map(...)\<close>: the calls in the order of the array, ended by the first
  that throws or does not return.
\<close>

fun mapear :: "('a \<Rightarrow> 'b saida option) \<Rightarrow> 'a list \<Rightarrow> 'b list saida option" where
  "mapear f [] = Some (Retorna [])"
| "mapear f (x # xs) =
     (case f x of
        None \<Rightarrow> None
      | Some (Lanca e) \<Rightarrow> Some (Lanca e)
      | Some (Retorna v) \<Rightarrow>
          (case mapear f xs of
             None \<Rightarrow> None
           | Some (Lanca e) \<Rightarrow> Some (Lanca e)
           | Some (Retorna vs) \<Rightarrow> Some (Retorna (v # vs))))"

text \<open>
  \<open>xs[i] - ex\<close>: an index outside the array reads \<open>undefined\<close>, and \<open>undefined - ex\<close>
  is NaN.
\<close>

definition menos_em :: "jsnum list \<Rightarrow> nat \<Rightarrow> jsnum \<Rightarrow> jsnum" where
  "menos_em xs i ex = (if i < length xs then xs ! i - ex else NaN)"

text \<open>The three running maxima \<open>erroMaxEuler\<close>, \<open>erroMaxEulerApr\<close>, \<open>erroMaxRK4\<close>.\<close>

record erros =
  erroMaxEuler :: jsnum
  erroMaxEulerApr :: jsnum
  erroMaxRK4 :: jsnum

text \<open>The body of the inner \<open>forEach((ex, i) => ...)\<close> for the solution \<open>sol\<close>.\<close>

definition erro_passo :: "solucao \<Rightarrow> erros \<Rightarrow> nat \<times> jsnum \<Rightarrow> erros" where
  "erro_passo sol e iex =
     (case iex of (i, ex) \<Rightarrow>
        \<lparr>erroMaxEuler = Math_max (erroMaxEuler e) (Math_abs (menos_em (sol_euler sol) i ex)),
         erroMaxEulerApr = Math_max (erroMaxEulerApr e) (Math_abs (menos_em (sol_eulerApr sol) i ex)),
         erroMaxRK4 = Math_max (erroMaxRK4 e) (Math_abs (menos_em (sol_rk4 sol) i ex))\<rparr>)"

definition erros_maximos :: "solucao list \<Rightarrow> erros" where
  "erros_maximos todasSolucoes =
     foldl (\<lambda>e sol. foldl (erro_passo sol) e (enumerate 0 (sol_exata sol)))
       \<lparr>erroMaxEuler = Fin 0, erroMaxEulerApr = Fin 0, erroMaxRK4 = Fin 0\<rparr>
       todasSolucoes"

text \<open>
  What the \<open>useMemo\<close> of \<open>ModeloLogisticoCorrigido\<close> returns, without the chart
  rows \<open>dadosGrafico\<close>, which only rearrange the same values for the chart.
\<close>

record dados =
  todasSolucoes :: "solucao list"
  tempos :: "jsnum list"
  erros_max :: erros

definition calcular_dados ::
  "(real \<Rightarrow> jsnum) \<Rightarrow> jsnum \<Rightarrow> jsnum \<Rightarrow> jsnum \<Rightarrow> jsnum \<Rightarrow> condicao list \<Rightarrow> dados saida option" where
  "calcular_dados aprox r K tf h condicoes =
     (let condicoesAtivas = filter ativo condicoes
      in case tempos_corrigido tf h of
           None \<Rightarrow> None
         | Some grade \<Rightarrow>
             (case mapear (calcular_solucao aprox r K tf h grade) (enumerate 0 condicoesAtivas) of
                None \<Rightarrow> None
              | Some (Lanca e) \<Rightarrow> Some (Lanca e)
              | Some (Retorna sols) \<Rightarrow>
                  Some (Retorna
                    \<lparr>todasSolucoes = sols, tempos = grade, erros_max = erros_maximos sols\<rparr>)))"

text \<open>
  The text shown for an error ratio:
  \<open>erroMaxRK4 > 0 ? (erroMax / erroMaxRK4).toFixed(0) : '\<infinity>'\<close>. The digits that
  \<open>toFixed(0)\<close> prints are not modelled: \<open>ToFixed0 q\<close> stands for the text
  \<open>q.toFixed(0)\<close> of the number \<open>q\<close>.
\<close>

datatype exibicao = ToFixed0 jsnum | Simbolo_infinito

definition razao_exibida :: "jsnum \<Rightarrow> jsnum \<Rightarrow> exibicao" where
  "razao_exibida erroMax erroRK4 =
     (if js_gt erroRK4 (Fin 0) then ToFixed0 (erroMax / erroRK4) else Simbolo_infinito)"

text \<open>
  The two ratios of the comparison paragraph: Euler over RK4 and improved Euler over
  RK4, each shown through \<open>razao_exibida\<close>.
\<close>

definition comparativo :: "dados \<Rightarrow> exibicao \<times> exibicao" where
  "comparativo d =
     (razao_exibida (erroMaxEuler (erros_max d)) (erroMaxRK4 (erros_max d)),
      razao_exibida (erroMaxEulerApr (erros_max d)) (erroMaxRK4 (erros_max d)))"

section \<open>The vocabulary of the specification\<close>

text \<open>
  One step of each method as the specification writes it, with
  \<open>f(t, y) = r * y * (1 - y / K)\<close>: the value \<open>y_{i+1}\<close> computed from \<open>t_i\<close> and \<open>y_i\<close>,
  every operation being the one of JavaScript numbers.
\<close>

definition recorrencia_euler :: "jsnum \<Rightarrow> jsnum \<Rightarrow> jsnum \<Rightarrow> jsnum \<Rightarrow> jsnum \<Rightarrow> jsnum" where
  "recorrencia_euler r K h t y =
     (let f = (\<lambda>t y. r * y * (Fin 1 - y / K))
      in y + h * f t y)"

definition recorrencia_heun :: "jsnum \<Rightarrow> jsnum \<Rightarrow> jsnum \<Rightarrow> jsnum \<Rightarrow> jsnum \<Rightarrow> jsnum" where
  "recorrencia_heun r K h t y =
     (let f = (\<lambda>t y. r * y * (Fin 1 - y / K));
          k1 = f t y;
          k2 = f (t + h) (y + h * k1)
      in y + (h / Fin 2) * (k1 + k2))"

definition recorrencia_rk4 :: "jsnum \<Rightarrow> jsnum \<Rightarrow> jsnum \<Rightarrow> jsnum \<Rightarrow> jsnum \<Rightarrow> jsnum" where
  "recorrencia_rk4 r K h t y =
     (let f = (\<lambda>t y. r * y * (Fin 1 - y / K));
          k1 = f t y;
          k2 = f (t + h / Fin 2) (y + (h / Fin 2) * k1);
          k3 = f (t + h / Fin 2) (y + (h / Fin 2) * k2);
          k4 = f (t + h) (y + h * k3)
      in y + (h / Fin 6) * (k1 + Fin 2 * k2 + Fin 2 * k3 + k4))"

text \<open>
  The analytic solution as the specification writes it,
  \<open>K * y0 / (y0 + (K - y0) * e^(-(r * t)))\<close>, over a given exponential \<open>ex\<close>.
\<close>

definition formula_exata :: "(jsnum \<Rightarrow> jsnum) \<Rightarrow> jsnum \<Rightarrow> jsnum \<Rightarrow> jsnum \<Rightarrow> jsnum \<Rightarrow> jsnum" where
  "formula_exata ex t r K y0 = (K * y0) / (y0 + (K - y0) * ex (- (r * t)))"

text \<open>
  An engine whose \<open>Math.exp\<close> is the exact exponential, rounded to the nearest number.
  An engine may be less accurate than this one; the examples use it where they need
  one engine.
\<close>

definition exp_arredondada :: "real \<Rightarrow> jsnum" where
  "exp_arredondada x = arredonda (exp x)"

text \<open>
  The time of step \<open>i\<close>: the value of the variable \<open>t\<close> after \<open>i\<close> executions of
  \<open>t = t + h\<close> from \<open>t = 0\<close>, each addition rounded as JavaScript rounds it.
\<close>

fun t_acum :: "jsnum \<Rightarrow> nat \<Rightarrow> jsnum" where
  "t_acum h 0 = Fin 0"
| "t_acum h (Suc i) = t_acum h i + h"

text \<open>The time the modules store for step \<open>i\<close>: \<open>0\<close>, then \<open>parseFloat(t.toFixed(6))\<close>.\<close>

definition tempo_modulo :: "jsnum \<Rightarrow> nat \<Rightarrow> jsnum" where
  "tempo_modulo h i = (if i = 0 then Fin 0 else parseFloat_toFixed6 (t_acum h i))"

text \<open>The times \<open>0\<close>, \<open>0 + h\<close>, \<open>0 + h + h\<close>, ... of the steps \<open>0\<close> to \<open>n\<close>.\<close>

definition tempos_acumulados :: "jsnum \<Rightarrow> nat \<Rightarrow> jsnum list" where
  "tempos_acumulados h n = map (t_acum h) [0..<Suc n]"

text \<open>
  The shape the specification gives a trajectory, for the number \<open>q\<close> that \<open>tf / h\<close>
  evaluates to: a normal return of \<open>floor(q) + 1\<close> points, the first of them
  \<open>{t = 0, y = y0}\<close>, in the order of the steps: the point at index \<open>i\<close> carries the
  time \<open>tempo i\<close> of step \<open>i\<close>.
\<close>

definition trajetoria_de ::
  "ponto list saida option \<Rightarrow> jsnum \<Rightarrow> real \<Rightarrow> (nat \<Rightarrow> jsnum) \<Rightarrow> bool" where
  "trajetoria_de res y0 q tempo =
     (case res of
        Some (Retorna pts) \<Rightarrow>
          int (length pts) = \<lfloor>q\<rfloor> + 1 \<and> pts \<noteq> [] \<and> hd pts = \<lparr>pt_t = Fin 0, pt_y = y0\<rparr> \<and>
          map pt_t pts = map tempo [0..<length pts]
      | Some (Lanca e) \<Rightarrow> False
      | None \<Rightarrow> False)"

text \<open>
  Two results that differ only in the stored time: both are normal returns, with the
  same number of points and the same \<open>y\<close> at every index, the first result's \<open>t\<close>
  being the second's after \<open>parseFloat(t.toFixed(6))\<close>.
\<close>

definition difere_so_no_tempo :: "ponto list saida option \<Rightarrow> ponto list saida option \<Rightarrow> bool" where
  "difere_so_no_tempo res_modulo res_inline =
     (case (res_modulo, res_inline) of
        (Some (Retorna a), Some (Retorna b)) \<Rightarrow>
          length a = length b \<and> map pt_y a = map pt_y b \<and>
          map pt_t a = map parseFloat_toFixed6 (map pt_t b)
      | _ \<Rightarrow> False)"


text \<open>A list of points with every coordinate finite.\<close>

definition todo_finito :: "ponto list \<Rightarrow> bool" where
  "todo_finito pts = list_all (\<lambda>p. finito (pt_t p) \<and> finito (pt_y p)) pts"

text \<open>
  What an integrator \<open>f\<close> does with input outside its contract, none of it a rejection:
  for a step \<open>h > 0\<close> and a final time \<open>tf \<le> 0\<close> it returns the single point
  \<open>{t = 0, y = y0}\<close>; for \<open>h = 0\<close> and \<open>tf > 0\<close> the number of steps is \<open>Infinity\<close> and
  the call has the outcome \<open>sem_fim\<close>, which is not a normal return; and whatever it
  returns for a non-finite \<open>y0\<close> is not entirely finite.
\<close>

definition sem_validacao ::
  "ponto list saida option \<Rightarrow>
   (jsnum \<Rightarrow> jsnum \<Rightarrow> jsnum \<Rightarrow> jsnum \<Rightarrow> jsnum \<Rightarrow> ponto list saida option) \<Rightarrow> bool" where
  "sem_validacao sem_fim f =
     ((\<forall>r K y0 tf h. 0 < h \<and> tf \<le> 0 \<longrightarrow>
         f r K y0 (Fin tf) (Fin h) = Some (Retorna [\<lparr>pt_t = Fin 0, pt_y = y0\<rparr>])) \<and>
      (\<forall>r K y0 tf. 0 < tf \<longrightarrow> f r K y0 (Fin tf) (Fin 0) = sem_fim) \<and>
      (\<forall>r K y0 tf h pts.
         \<not> finito y0 \<and> f r K y0 tf h = Some (Retorna pts) \<longrightarrow> \<not> todo_finito pts))"

text \<open>\<open>m\<close> is the maximum of the list \<open>xs\<close>: one of its elements, and \<open>e <= m\<close> for each.\<close>

definition maximo_de :: "jsnum \<Rightarrow> jsnum list \<Rightarrow> bool" where
  "maximo_de m xs = (m \<in> set xs \<and> list_all (\<lambda>e. js_le e m) xs)"

text \<open>
  The absolute errors of one method's series \<open>ys\<close> against the analytic series
  \<open>exata\<close>: \<open>|ys[i] - exata[i]|\<close> for every index \<open>i\<close> of \<open>exata\<close>.
\<close>

definition termos :: "jsnum list \<Rightarrow> jsnum list \<Rightarrow> jsnum list" where
  "termos ys exata = map (\<lambda>iex. Math_abs (menos_em ys (fst iex) (snd iex))) (enumerate 0 exata)"

text \<open>The absolute errors of a method over all the solutions of the comparator.\<close>

definition termos_de :: "(solucao \<Rightarrow> jsnum list) \<Rightarrow> solucao list \<Rightarrow> jsnum list" where
  "termos_de serie sols = concat (map (\<lambda>sol. termos (serie sol) (sol_exata sol)) sols)"

text \<open>
  The maximum the specification asks of an error scalar \<open>m\<close> over the terms \<open>ts\<close>:
  zero when there is no term, and otherwise the maximum of the terms.
\<close>

definition maximo_dos_erros :: "jsnum \<Rightarrow> jsnum list \<Rightarrow> bool" where
  "maximo_dos_erros m ts = (if ts = [] then m = Fin 0 else maximo_de m ts)"

section \<open>The loop in closed form\<close>

text \<open>
  The loop bodies that return have one shape: \<open>y\<close> becomes \<open>F t y\<close>, \<open>t\<close> becomes
  \<open>t + h\<close>, and the point \<open>{g (t + h), F t y}\<close> is pushed, where \<open>g\<close> is the rounding of
  the stored time or nothing. The definitions below name that shape and the values
  it produces; they serve the proofs only.
\<close>

definition avanca ::
  "(jsnum \<Rightarrow> jsnum \<Rightarrow> jsnum) \<Rightarrow> (jsnum \<Rightarrow> jsnum) \<Rightarrow> jsnum \<Rightarrow> estado \<Rightarrow> estado" where
  "avanca F g h s =
     \<lparr>var_y = F (var_t s) (var_y s), var_t = var_t s + h,
      resultado = resultado s @ [\<lparr>pt_t = g (var_t s + h), pt_y = F (var_t s) (var_y s)\<rparr>]\<rparr>"

fun y_seq :: "(jsnum \<Rightarrow> jsnum \<Rightarrow> jsnum) \<Rightarrow> jsnum \<Rightarrow> jsnum \<Rightarrow> nat \<Rightarrow> jsnum" where
  "y_seq F h y0 0 = y0"
| "y_seq F h y0 (Suc i) = F (t_acum h i) (y_seq F h y0 i)"

definition ponto_i ::
  "(jsnum \<Rightarrow> jsnum \<Rightarrow> jsnum) \<Rightarrow> (jsnum \<Rightarrow> jsnum) \<Rightarrow> jsnum \<Rightarrow> jsnum \<Rightarrow> nat \<Rightarrow> ponto" where
  "ponto_i F g h y0 i =
     \<lparr>pt_t = (if i = 0 then Fin 0 else g (t_acum h i)), pt_y = y_seq F h y0 i\<rparr>"

text \<open>The numbers that are not negative and not NaN: what \<open>Math.abs\<close> returns of a number.\<close>

definition nao_negativo :: "jsnum \<Rightarrow> bool" where
  "nao_negativo x =
     (case x of Fin e \<Rightarrow> 0 \<le> e | MZero \<Rightarrow> False | PInf \<Rightarrow> True | NInf \<Rightarrow> False | NaN \<Rightarrow> False)"

section \<open>Facts about rounding\<close>

lemma expo_acima_eq:
  "2 ^ n \<le> a \<Longrightarrow> a < 2 ^ Suc n \<Longrightarrow> n \<le> k \<Longrightarrow> expo_acima k a = n"
proof (induction k arbitrary: a n)
  case 0
  then show ?case by simp
next
  case (Suc k)
  show ?case
  proof (cases n)
    case 0
    with Suc.prems show ?thesis by simp
  next
    case (Suc m)
    have "(2::real) \<le> 2 ^ n" using Suc by simp
    with Suc.prems(1) have "2 \<le> a" by linarith
    moreover have "expo_acima k (a / 2) = m"
      using Suc.prems Suc by (intro Suc.IH) (simp_all add: field_simps)
    ultimately show ?thesis using Suc by simp
  qed
qed

lemma expo_abaixo_eq:
  "1 \<le> a * 2 ^ n \<Longrightarrow> a * 2 ^ n < 2 \<Longrightarrow> n \<le> k \<Longrightarrow> 0 < a \<Longrightarrow> expo_abaixo k a = n"
proof (induction k arbitrary: a n)
  case 0
  then show ?case by simp
next
  case (Suc k)
  show ?case
  proof (cases n)
    case 0
    with Suc.prems show ?thesis by simp
  next
    case (Suc m)
    have "(2::real) \<le> 2 ^ n" using Suc by simp
    then have "a * 2 \<le> a * 2 ^ n" using Suc.prems(4) by (intro mult_left_mono) simp_all
    with Suc.prems(2) have "a < 1" by linarith
    moreover have "expo_abaixo k (a * 2) = m"
      using Suc.prems Suc by (intro Suc.IH) (simp_all add: field_simps)
    ultimately show ?thesis using Suc by simp
  qed
qed

lemma expoente_eq:
  assumes "2 powi e \<le> a" and "a < 2 powi (e + 1)" and "- 1022 \<le> e" and "e \<le> 1023"
  shows "expoente a = e"
proof (cases "0 \<le> e")
  case True
  define n where "n = nat e"
  have n: "e = int n" using True by (simp add: n_def)
  have 1: "2 ^ n \<le> a" using assms(1) n by simp
  have 2: "a < 2 ^ Suc n" using assms(2) n by (simp add: power_int_add)
  have "(1::real) \<le> 2 ^ n" by simp
  with 1 have "1 \<le> a" by linarith
  moreover have "expo_acima 1024 a = n" using 1 2 assms(4) n by (intro expo_acima_eq) simp_all
  ultimately show ?thesis by (simp add: expoente_def n)
next
  case False
  define n where "n = nat (- e)"
  have n: "e = - int n" "0 < n" using False by (simp_all add: n_def)
  have "(0::real) < 2 powi e" by simp
  with assms(1) have pos: "0 < a" by linarith
  have 1: "1 \<le> a * 2 ^ n"
    using assms(1) n by (simp add: power_int_minus field_simps)
  have 2: "a * 2 ^ n < 2"
  proof -
    have "a < 2 powi (1 - int n)" using assms(2) n by (simp add: algebra_simps)
    also have "\<dots> = 2 / 2 ^ n" by (simp add: power_int_diff)
    finally show ?thesis by (simp add: field_simps)
  qed
  have "(2::real) \<le> 2 ^ n" using n(2) by (cases n) simp_all
  then have "a * 2 \<le> a * 2 ^ n" using pos by (intro mult_left_mono) simp_all
  with 2 have "a < 1" by linarith
  moreover have "expo_abaixo 1022 a = n" using 1 2 assms(3) n pos by (intro expo_abaixo_eq) simp_all
  ultimately show ?thesis by (simp add: expoente_def n)
qed



lemma round_even_int: "round_even (of_int j) = j"
  by (simp add: round_even_def)

lemma round_even_nonneg: "0 \<le> y \<Longrightarrow> 0 \<le> round_even y"
  by (auto simp add: round_even_def Let_def)

lemma round_even_cases:
  "(round_even y = \<lfloor>y\<rfloor> \<and> y - of_int \<lfloor>y\<rfloor> \<le> 1 / 2)
    \<or> (round_even y = \<lfloor>y\<rfloor> + 1 \<and> 1 / 2 \<le> y - of_int \<lfloor>y\<rfloor>)"
  by (simp add: round_even_def Let_def)


lemma round_even_pos: "1 \<le> y \<Longrightarrow> 0 < round_even y"
proof -
  assume "1 \<le> y"
  then have "1 \<le> \<lfloor>y\<rfloor>" by simp
  with round_even_cases[of y] show ?thesis by auto
qed

text \<open>How to evaluate \<open>arredonda\<close> at a given real: name the exponent and the significand.\<close>

lemma significando_pos:
  assumes "2 powi e \<le> x"
  shows "0 < round_even (x / 2 powi (e - 52))"
proof -
  have "2 powi e / 2 powi (e - 52) \<le> x / 2 powi (e - 52)"
    using assms by (intro divide_right_mono) simp_all
  moreover have "(2::real) powi e / 2 powi (e - 52) = 2 ^ 52"
    by (simp add: power_int_diff)
  ultimately have "(2::real) ^ 52 \<le> x / 2 powi (e - 52)" by simp
  moreover have "(1::real) \<le> 2 ^ 52" by simp
  ultimately have "(1::real) \<le> x / 2 powi (e - 52)" by (rule order_trans[rotated])
  then show ?thesis by (rule round_even_pos)
qed

lemma arredonda_pos:
  assumes "2 powi e \<le> x" and "x < 2 powi (e + 1)" and "- 1022 \<le> e" and "e \<le> 1023"
    and "round_even (x / 2 powi (e - 52)) = m" and "v = of_int m * 2 powi (e - 52)"
    and "v < 2 ^ 1024"
  shows "arredonda x = Fin v"
proof -
  have "(0::real) < 2 powi e" by simp
  with assms(1) have x: "0 < x" by linarith
  have "0 < m" using significando_pos[OF assms(1)] assms(5) by simp
  then have "v \<noteq> 0" using assms(6) by simp
  then show ?thesis
    using assms x by (simp add: arredonda_def Let_def expoente_eq[of e x])
qed

lemma arredonda_menos:
  assumes "arredonda x = Fin v" and "v \<noteq> 0"
  shows "arredonda (- x) = Fin (- v)"
proof -
  have "x \<noteq> 0" using assms by (auto simp add: arredonda_def)
  then show ?thesis
    using assms
    by (auto simp add: arredonda_def Let_def zero_com_sinal_def infinito_com_sinal_def
        split: if_splits)
qed

lemma arredonda_neg:
  assumes "2 powi e \<le> - x" and "- x < 2 powi (e + 1)" and "- 1022 \<le> e" and "e \<le> 1023"
    and "round_even (- x / 2 powi (e - 52)) = m" and "v = of_int m * 2 powi (e - 52)"
    and "v < 2 ^ 1024"
  shows "arredonda x = Fin (- v)"
proof -
  have "(0::real) < 2 powi e" by simp
  with assms(1) have x: "x < 0" by linarith
  have p: "arredonda (- x) = Fin v" using assms by (rule arredonda_pos)
  have "0 < m" using significando_pos[OF assms(1)] assms(5) by simp
  then have "v \<noteq> 0" using assms(6) by simp
  with p have "arredonda (- (- x)) = Fin (- v)" by (rule arredonda_menos)
  then show ?thesis by simp
qed

lemma arredonda_1: "arredonda 1 = Fin 1"
  by (rule arredonda_pos[where e = 0 and m = "2 ^ 52"]) (simp_all add: round_even_def)

lemma arredonda_2: "arredonda 2 = Fin 2"
  by (rule arredonda_pos[where e = 1 and m = "2 ^ 52"]) (simp_all add: round_even_def)

text \<open>The sign of a rounded real.\<close>

lemma arredonda_positivo:
  assumes "0 < x"
  shows "arredonda x = PInf \<or> (\<exists>v. arredonda x = Fin v \<and> 0 \<le> v)"
proof -
  have "0 \<le> round_even (\<bar>x\<bar> / 2 powi (expoente \<bar>x\<bar> - 52))"
    by (intro round_even_nonneg) simp
  then have "0 \<le> of_int (round_even (\<bar>x\<bar> / 2 powi (expoente \<bar>x\<bar> - 52))) * (2::real) powi (expoente \<bar>x\<bar> - 52)"
    by simp
  then show ?thesis
    using assms by (auto simp add: arredonda_def Let_def zero_com_sinal_def infinito_com_sinal_def)
qed

lemma arredonda_negativo:
  assumes "x < 0"
  shows "arredonda x = NInf \<or> arredonda x = MZero \<or> (\<exists>v. arredonda x = Fin v \<and> v < 0)"
proof -
  define w :: real
    where "w = of_int (round_even (\<bar>x\<bar> / 2 powi (expoente \<bar>x\<bar> - 52))) * 2 powi (expoente \<bar>x\<bar> - 52)"
  have "0 \<le> round_even (\<bar>x\<bar> / 2 powi (expoente \<bar>x\<bar> - 52))"
    by (intro round_even_nonneg) simp
  then have w: "0 \<le> w" by (simp add: w_def)
  have "arredonda x = (if w = 0 then MZero else if 2 ^ 1024 \<le> w then NInf else Fin (- w))"
    using assms by (simp add: arredonda_def Let_def zero_com_sinal_def infinito_com_sinal_def w_def)
  with w show ?thesis by auto
qed


text \<open>The integers from 1 to \<open>2^53\<close> are numbers: rounding leaves them as they are.\<close>

lemma arredonda_inteiro:
  assumes "0 < j" and "j \<le> 2 ^ 53"
  shows "arredonda (of_int j) = Fin (of_int j)"
proof -
  have "1 \<le> nat j" using assms by simp
  from ex_power_ivl1[of 2 "nat j", OF _ this] obtain n where
    n: "2 ^ n \<le> nat j" "nat j < 2 ^ (n + 1)" by auto
  have lo: "(2::int) ^ n \<le> j" using n(1) assms(1) by (simp add: le_nat_iff)
  have hi: "j < 2 ^ (n + 1)" using n(2) assms(1) by (simp add: nat_less_iff)
  from lo assms(2) have "(2::int) ^ n \<le> 2 ^ 53" by (rule order_trans)
  then have n53: "n \<le> 53" by (rule power_le_imp_le_exp[rotated]) simp
  have lor: "(2::real) ^ n \<le> of_int j" using lo by (metis of_int_le_iff of_int_numeral of_int_power)
  have hir: "of_int j < (2::real) ^ (n + 1)" using hi by (metis of_int_less_iff of_int_numeral of_int_power)
  show ?thesis
  proof (cases "n \<le> 52")
    case True
    define k where "k = 52 - n"
    have e: "int n - 52 = - int k" using True by (simp add: k_def)
    have q: "of_int j / 2 powi (int n - 52) = (of_int (j * 2 ^ k) :: real)"
      unfolding e by (simp add: power_int_minus field_simps)
    show ?thesis
    proof (rule arredonda_pos[where e = "int n" and m = "j * 2 ^ k"])
      show "2 powi int n \<le> (of_int j :: real)" using lor by simp
      show "(of_int j :: real) < 2 powi (int n + 1)" using hir by (simp add: power_int_add)
      show "- 1022 \<le> int n" by simp
      show "int n \<le> 1023" using True by simp
      show "round_even (of_int j / 2 powi (int n - 52)) = j * 2 ^ k"
        unfolding q by (rule round_even_int)
      show "(of_int j :: real) = of_int (j * 2 ^ k) * 2 powi (int n - 52)"
        unfolding e by (simp add: power_int_minus)
      have "(of_int j :: real) \<le> 2 ^ 53" using assms(2) by (metis of_int_le_iff of_int_numeral of_int_power)
      then show "(of_int j :: real) < 2 ^ 1024" by simp
    qed
  next
    case False
    with n53 have n: "n = 53" by simp
    with lo assms(2) have j: "j = 2 ^ 53" by simp
    show ?thesis
      unfolding j
      by (rule arredonda_pos[where e = 53 and m = "2 ^ 52"]) (simp_all add: round_even_def)
  qed
qed

section \<open>Arithmetic of numbers on finite arguments\<close>

lemma fin_add: "Fin a + Fin b = (if a + b = 0 then Fin 0 else arredonda (a + b))"
  by (simp add: plus_jsnum_def js_add_def)


lemma fin_sub: "Fin a - Fin b = (if a - b = 0 then Fin 0 else arredonda (a - b))"
  by (simp add: minus_jsnum_def js_add_def js_neg_def)

lemma fin_mul:
  "Fin a * Fin b =
     (if a * b = 0 then zero_com_sinal ((a < 0) \<noteq> (b < 0)) else arredonda (a * b))"
  by (simp add: times_jsnum_def js_mul_def)

lemma fin_div:
  "b \<noteq> 0 \<Longrightarrow>
   Fin a / Fin b = (if a = 0 then zero_com_sinal (b < 0) else arredonda (a / b))"
  by (simp add: divide_jsnum_def js_div_def)

lemma fin_div_zero: "0 < a \<Longrightarrow> Fin a / Fin 0 = PInf"
  by (simp add: divide_jsnum_def js_div_def infinito_com_sinal_def)

lemma js_lt_fin: "js_lt (Fin a) (Fin b) = (a < b)"
  by (simp add: js_lt_def)

lemma quociente_nao_negativo:
  assumes "0 < h" and "0 < tf" and "Fin tf / Fin h = Fin q"
  shows "0 \<le> q"
proof -
  have "Fin tf / Fin h = arredonda (tf / h)" using assms by (simp add: fin_div)
  moreover have "0 < tf / h" using assms by simp
  ultimately show ?thesis using arredonda_positivo[of "tf / h"] assms(3) by auto
qed

lemma quociente_nao_positivo:
  assumes "0 < h" and "tf \<le> 0"
  shows "\<not> js_lt (Fin 0) (Math_floor (Fin tf / Fin h))"
proof (cases "tf = 0")
  case True
  then show ?thesis using assms by (simp add: fin_div zero_com_sinal_def js_lt_def)
next
  case False
  then have "tf / h < 0" using assms by (simp add: field_simps)
  from arredonda_negativo[OF this] have
    "arredonda (tf / h) = NInf \<or> arredonda (tf / h) = MZero
      \<or> (\<exists>v. arredonda (tf / h) = Fin v \<and> v < 0)" .
  moreover have "Fin tf / Fin h = arredonda (tf / h)" using assms False by (simp add: fin_div)
  ultimately show ?thesis by (auto simp add: js_lt_def)
qed

section \<open>The loop returns, and what it returns\<close>

lemma for_i_fin:
  assumes "\<And>s. corpo s = Retorna (f s)"
  shows "for_i (Fin (of_int k)) corpo i s = Some (Retorna ((f ^^ (nat k - i)) s))"
proof (induction "nat k - i" arbitrary: i s)
  case 0
  then have "\<not> real i < of_int k" by linarith
  then show ?case using 0 by (subst for_i.simps) (simp add: js_lt_fin)
next
  case (Suc m)
  then have lt: "real i < of_int k" by linarith
  from Suc have m: "m = nat k - Suc i" by simp
  have "for_i (Fin (of_int k)) corpo i s = for_i (Fin (of_int k)) corpo (Suc i) (f s)"
    using lt by (subst for_i.simps) (simp add: js_lt_fin assms)
  also have "\<dots> = Some (Retorna ((f ^^ m) (f s)))"
    using Suc.hyps(1)[OF m] m by simp
  also have "(f ^^ m) (f s) = (f ^^ (nat k - i)) s"
    using Suc.hyps(2)[symmetric] by (simp add: funpow_swap1)
  finally show ?case .
qed

lemma for_i_nao_entra: "\<not> js_lt (Fin (real i)) n \<Longrightarrow> for_i n corpo i s = Some (Retorna s)"
  by (subst for_i.simps) simp

lemma for_i_lanca:
  "js_lt (Fin (real i)) n \<Longrightarrow> corpo s = Lanca e \<Longrightarrow> for_i n corpo i s = Some (Lanca e)"
  by (subst for_i.simps) simp

lemma for_i_Some_not_PInf:
  assumes "for_i n corpo i s = Some res"
  shows "(\<forall>s. \<exists>s'. corpo s = Retorna s') \<longrightarrow> n \<noteq> PInf"
proof (rule for_i.raw_induct[where P = "\<lambda>n corpo i s res. (\<forall>s. \<exists>s'. corpo s = Retorna s') \<longrightarrow> n \<noteq> PInf",
      OF _ assms])
  fix g n corpo i s res
  assume ih: "\<And>n corpo i s res. g n corpo i s = Some res \<Longrightarrow>
      (\<forall>s. \<exists>s'. corpo s = Retorna s') \<longrightarrow> n \<noteq> PInf"
    and st: "(if js_lt (Fin (real i)) n
              then case corpo s of Retorna s' \<Rightarrow> g n corpo (Suc i) s' | Lanca e \<Rightarrow> Some (Lanca e)
              else Some (Retorna s)) = Some res"
  show "(\<forall>s. \<exists>s'. corpo s = Retorna s') \<longrightarrow> n \<noteq> PInf"
  proof (intro impI notI)
    assume c: "\<forall>s. \<exists>s'. corpo s = Retorna s'" and n: "n = PInf"
    from c obtain s' where s': "corpo s = Retorna s'" by blast
    from st n s' have "g PInf corpo (Suc i) s' = Some res" by (simp add: js_lt_def)
    from ih[OF this] c show False by simp
  qed
qed

lemma for_i_PInf:
  assumes "\<And>s. corpo s = Retorna (f s)"
  shows "for_i PInf corpo i s = None"
proof (cases "for_i PInf corpo i s")
  case None
  then show ?thesis .
next
  case (Some res)
  from for_i_Some_not_PInf[OF this] assms show ?thesis by simp
qed

lemma avanca_pow:
  "(avanca F g h ^^ m) (inicio y0) =
     \<lparr>var_y = y_seq F h y0 m, var_t = t_acum h m,
      resultado = map (ponto_i F g h y0) [0..<Suc m]\<rparr>"
proof (induction m)
  case 0
  show ?case by (simp add: inicio_def ponto_i_def)
next
  case (Suc m)
  have "(avanca F g h ^^ Suc m) (inicio y0) = avanca F g h ((avanca F g h ^^ m) (inicio y0))"
    by simp
  also have "\<dots> = avanca F g h \<lparr>var_y = y_seq F h y0 m, var_t = t_acum h m,
      resultado = map (ponto_i F g h y0) [0..<Suc m]\<rparr>"
    by (simp only: Suc)
  also have "\<dots> = \<lparr>var_y = y_seq F h y0 (Suc m), var_t = t_acum h (Suc m),
      resultado = map (ponto_i F g h y0) [0..<Suc (Suc m)]\<rparr>"
    by (simp add: avanca_def ponto_i_def)
  finally show ?case .
qed

lemma laco_avanca:
  assumes "\<And>s. corpo s = Retorna (avanca F g h s)" and "x = Fin q"
  shows "map_option (map_saida resultado) (for_i (Math_floor x) corpo 0 (inicio y0)) =
         Some (Retorna (map (ponto_i F g h y0) [0..<Suc (nat \<lfloor>q\<rfloor>)]))"
  using assms(2) by (simp add: for_i_fin[of corpo, OF assms(1)] avanca_pow del: upt_Suc)

lemma laco_infinito:
  assumes "\<And>s. corpo s = Retorna (avanca F g h s)"
  shows "map_option (map_saida resultado) (for_i (Math_floor PInf) corpo 0 (inicio y0)) = None"
  by (simp add: for_i_PInf[of corpo, OF assms])

lemma euler_corpo_avanca:
  "euler_corpo r K h s = Retorna (avanca (recorrencia_euler r K h) parseFloat_toFixed6 h s)"
  by (simp add: euler_corpo_def avanca_def recorrencia_euler_def modeloLogistico_modulo_def Let_def)

lemma rungeKutta4_corpo_avanca:
  "rungeKutta4_corpo r K h s = Retorna (avanca (recorrencia_rk4 r K h) parseFloat_toFixed6 h s)"
  by (simp add: rungeKutta4_corpo_def avanca_def recorrencia_rk4_def
      modeloLogistico_modulo_def Let_def)

lemma euler_inline_corpo_avanca:
  "euler_inline_corpo r K h s = Retorna (avanca (recorrencia_euler r K h) (\<lambda>t. t) h s)"
  by (simp add: euler_inline_corpo_def avanca_def recorrencia_euler_def modeloLogistico_def Let_def)

lemma eulerAprimorado_inline_corpo_avanca:
  "eulerAprimorado_inline_corpo r K h s = Retorna (avanca (recorrencia_heun r K h) (\<lambda>t. t) h s)"
  by (simp add: eulerAprimorado_inline_corpo_def avanca_def recorrencia_heun_def
      modeloLogistico_def Let_def)

lemma rungeKutta4_inline_corpo_avanca:
  "rungeKutta4_inline_corpo r K h s = Retorna (avanca (recorrencia_rk4 r K h) (\<lambda>t. t) h s)"
  by (simp add: rungeKutta4_inline_corpo_def avanca_def recorrencia_rk4_def
      modeloLogistico_def Let_def)

lemma eulerAprimorado_corpo_lanca: "eulerAprimorado_corpo r K h s = Lanca ReferenceError"
  by (simp add: eulerAprimorado_corpo_def modeloLogistico_nao_resolvido_def)

text \<open>The integrators on a finite quotient \<open>tf / h\<close>.\<close>

lemma euler_fin:
  "tf / h = Fin q \<Longrightarrow> euler r K y0 tf h =
     Some (Retorna (map (ponto_i (recorrencia_euler r K h) parseFloat_toFixed6 h y0)
             [0..<Suc (nat \<lfloor>q\<rfloor>)]))"
  unfolding euler_def Let_def by (rule laco_avanca[OF euler_corpo_avanca])

lemma rungeKutta4_fin:
  "tf / h = Fin q \<Longrightarrow> rungeKutta4 r K y0 tf h =
     Some (Retorna (map (ponto_i (recorrencia_rk4 r K h) parseFloat_toFixed6 h y0)
             [0..<Suc (nat \<lfloor>q\<rfloor>)]))"
  unfolding rungeKutta4_def Let_def by (rule laco_avanca[OF rungeKutta4_corpo_avanca])

lemma euler_inline_fin:
  "tf / h = Fin q \<Longrightarrow> euler_inline r K y0 tf h =
     Some (Retorna (map (ponto_i (recorrencia_euler r K h) (\<lambda>t. t) h y0)
             [0..<Suc (nat \<lfloor>q\<rfloor>)]))"
  unfolding euler_inline_def Let_def by (rule laco_avanca[OF euler_inline_corpo_avanca])

lemma eulerAprimorado_inline_fin:
  "tf / h = Fin q \<Longrightarrow> eulerAprimorado_inline r K y0 tf h =
     Some (Retorna (map (ponto_i (recorrencia_heun r K h) (\<lambda>t. t) h y0)
             [0..<Suc (nat \<lfloor>q\<rfloor>)]))"
  unfolding eulerAprimorado_inline_def Let_def
  by (rule laco_avanca[OF eulerAprimorado_inline_corpo_avanca])

lemma rungeKutta4_inline_fin:
  "tf / h = Fin q \<Longrightarrow> rungeKutta4_inline r K y0 tf h =
     Some (Retorna (map (ponto_i (recorrencia_rk4 r K h) (\<lambda>t. t) h y0)
             [0..<Suc (nat \<lfloor>q\<rfloor>)]))"
  unfolding rungeKutta4_inline_def Let_def
  by (rule laco_avanca[OF rungeKutta4_inline_corpo_avanca])

text \<open>The module of \<open>eulerAprimorado\<close>: it throws as soon as the loop is entered.\<close>

lemma eulerAprimorado_lanca:
  "js_lt (Fin 0) (Math_floor (tf / h)) \<Longrightarrow>
   eulerAprimorado r K y0 tf h = Some (Lanca ReferenceError)"
  unfolding eulerAprimorado_def Let_def
  by (simp add: for_i_lanca[where e = ReferenceError] eulerAprimorado_corpo_lanca)

lemma eulerAprimorado_nao_entra:
  "\<not> js_lt (Fin 0) (Math_floor (tf / h)) \<Longrightarrow>
   eulerAprimorado r K y0 tf h = Some (Retorna [\<lparr>pt_t = Fin 0, pt_y = y0\<rparr>])"
  unfolding eulerAprimorado_def Let_def
  by (simp add: for_i_nao_entra inicio_def)

lemma eulerAprimorado_fin:
  assumes "tf / h = Fin q"
  shows "eulerAprimorado r K y0 tf h =
     (if 1 \<le> q then Some (Lanca ReferenceError) else Some (Retorna [\<lparr>pt_t = Fin 0, pt_y = y0\<rparr>]))"
proof (cases "1 \<le> q")
  case True
  then have "0 < \<lfloor>q\<rfloor>" by linarith
  then have "js_lt (Fin 0) (Math_floor (tf / h))" using assms by (simp add: js_lt_fin)
  from eulerAprimorado_lanca[OF this] True show ?thesis by simp
next
  case False
  then have "\<not> 0 < \<lfloor>q\<rfloor>" by linarith
  then have "\<not> js_lt (Fin 0) (Math_floor (tf / h))" using assms by (simp add: js_lt_fin)
  from eulerAprimorado_nao_entra[OF this] False show ?thesis by simp
qed

text \<open>Facts about the list of points \<open>map (ponto_i F g h y0) [0..<Suc n]\<close>.\<close>

lemma pontos_nth:
  "i \<le> n \<Longrightarrow> map (ponto_i F g h y0) [0..<Suc n] ! i = ponto_i F g h y0 i"
  by (metis add_0 le_imp_less_Suc nth_map_upt diff_zero)

lemma pontos_y_Suc:
  "i < n \<Longrightarrow>
   pt_y (map (ponto_i F g h y0) [0..<Suc n] ! Suc i) =
   F (t_acum h i) (pt_y (map (ponto_i F g h y0) [0..<Suc n] ! i))"
  by (simp add: pontos_nth ponto_i_def del: upt_Suc)

lemma pontos_hd: "hd (map (ponto_i F g h y0) [0..<Suc n]) = \<lparr>pt_t = Fin 0, pt_y = y0\<rparr>"
  by (simp add: upt_conv_Cons ponto_i_def del: upt_Suc)

lemma pontos_zero: "map (ponto_i F g h y0) [0..<Suc n] ! 0 = \<lparr>pt_t = Fin 0, pt_y = y0\<rparr>"
  by (simp add: pontos_nth ponto_i_def del: upt_Suc)

lemma pontos_t_inline:
  "map pt_t (map (ponto_i F (\<lambda>t. t) h y0) [0..<Suc n]) = map (t_acum h) [0..<Suc n]"
  by (simp add: ponto_i_def del: upt_Suc)

lemma pontos_t_modulo:
  "map pt_t (map (ponto_i F parseFloat_toFixed6 h y0) [0..<Suc n]) =
   map (tempo_modulo h) [0..<Suc n]"
  by (simp add: ponto_i_def tempo_modulo_def del: upt_Suc)

lemma pontos_y: "map pt_y (map (ponto_i F g h y0) [0..<Suc n]) = map (y_seq F h y0) [0..<Suc n]"
  by (simp add: ponto_i_def del: upt_Suc)

section \<open>Quotients used in the examples\<close>

lemma quociente_1_h01:
  "Fin 1 / Fin (3602879701896397 / 36028797018963968) =
   Fin 10"
proof -
  have "arredonda (1 / (3602879701896397 / 36028797018963968)) =
        Fin 10"
    by (rule arredonda_pos[where e = "3" and m = 5629499534213120])
      (simp_all add: round_even_def power_int_minus)
  then show ?thesis by (simp add: fin_div)
qed

lemma quociente_100_5:
  "Fin 100 / Fin 5 =
   Fin 20"
proof -
  have "arredonda (100 / 5) =
        Fin 20"
    by (rule arredonda_pos[where e = "4" and m = 5629499534213120])
      (simp_all add: round_even_def power_int_minus)
  then show ?thesis by (simp add: fin_div)
qed

lemma quociente_10_5:
  "Fin 10 / Fin 5 =
   Fin 2"
proof -
  have "arredonda (10 / 5) =
        Fin 2"
    by (rule arredonda_pos[where e = "1" and m = 4503599627370496])
      (simp_all add: round_even_def power_int_minus)
  then show ?thesis by (simp add: fin_div)
qed

lemma quociente_1_2:
  "Fin 1 / Fin 2 =
   Fin (1 / 2)"
proof -
  have "arredonda (1 / 2) =
        Fin (1 / 2)"
    by (rule arredonda_pos[where e = "-1" and m = 4503599627370496])
      (simp_all add: round_even_def power_int_minus)
  then show ?thesis by (simp add: fin_div)
qed


section \<open>Input outside the contract\<close>

lemma Math_floor_cases:
  "(\<exists>k. Math_floor x = Fin (of_int k)) \<or> Math_floor x = MZero \<or> Math_floor x = PInf
    \<or> Math_floor x = NInf \<or> Math_floor x = NaN"
  by (cases x) auto

lemma laco_primeiro:
  assumes "\<And>s. corpo s = Retorna (avanca F g h s)"
    and "map_option (map_saida resultado) (for_i (Math_floor x) corpo 0 (inicio y0)) =
           Some (Retorna pts)"
  shows "pts \<noteq> [] \<and> hd pts = \<lparr>pt_t = Fin 0, pt_y = y0\<rparr>"
proof -
  consider k where "Math_floor x = Fin (of_int k)" | "Math_floor x = MZero"
    | "Math_floor x = PInf" | "Math_floor x = NInf" | "Math_floor x = NaN"
    using Math_floor_cases[of x] by blast
  then show ?thesis
  proof cases
    case 1
    with assms(2) have "pts = map (ponto_i F g h y0) [0..<Suc (nat k)]"
      by (simp add: for_i_fin[of corpo, OF assms(1)] avanca_pow del: upt_Suc)
    then show ?thesis by (simp add: pontos_hd del: upt_Suc)
  next
    case 2
    with assms(2) show ?thesis by (auto simp add: for_i_nao_entra js_lt_def inicio_def)
  next
    case 3
    with assms(2) show ?thesis by (simp add: for_i_PInf[of corpo, OF assms(1)])
  next
    case 4
    with assms(2) show ?thesis by (auto simp add: for_i_nao_entra js_lt_def inicio_def)
  next
    case 5
    with assms(2) show ?thesis by (auto simp add: for_i_nao_entra js_lt_def inicio_def)
  qed
qed

lemma nao_finito_primeiro:
  assumes "\<not> finito y0" and "pts \<noteq> [] \<and> hd pts = \<lparr>pt_t = Fin 0, pt_y = y0\<rparr>"
  shows "\<not> todo_finito pts"
  using assms by (cases pts) (auto simp add: todo_finito_def)

lemma sem_validacao_laco:
  assumes c: "\<And>r K h s. corpo r K h s = Retorna (avanca (F r K h) g h s)"
    and f: "\<And>r K y0 tf h. f r K y0 tf h =
          map_option (map_saida resultado)
            (for_i (Math_floor (tf / h)) (corpo r K h) 0 (inicio y0))"
  shows "sem_validacao None f"
  unfolding sem_validacao_def
proof (intro conjI allI impI)
  fix r K y0 :: jsnum and tf h :: real
  assume "0 < h \<and> tf \<le> 0"
  then have "\<not> js_lt (Fin (real 0)) (Math_floor (Fin tf / Fin h))"
    using quociente_nao_positivo[of h tf] by simp
  then show "f r K y0 (Fin tf) (Fin h) = Some (Retorna [\<lparr>pt_t = Fin 0, pt_y = y0\<rparr>])"
    unfolding f by (simp add: for_i_nao_entra inicio_def)
next
  fix r K y0 :: jsnum and tf :: real
  assume "0 < tf"
  then show "f r K y0 (Fin tf) (Fin 0) = None"
    unfolding f by (simp add: fin_div_zero for_i_PInf[of "corpo r K (Fin 0)", OF c])
next
  fix r K y0 tf h :: jsnum and pts
  assume a: "\<not> finito y0 \<and> f r K y0 tf h = Some (Retorna pts)"
  then have "map_option (map_saida resultado)
      (for_i (Math_floor (tf / h)) (corpo r K h) 0 (inicio y0)) = Some (Retorna pts)"
    unfolding f by simp
  from laco_primeiro[of "corpo r K h", OF c this] a show "\<not> todo_finito pts"
    by (intro nao_finito_primeiro) simp_all
qed

lemma sem_validacao_eulerAprimorado: "sem_validacao (Some (Lanca ReferenceError)) eulerAprimorado"
  unfolding sem_validacao_def
proof (intro conjI allI impI)
  fix r K y0 :: jsnum and tf h :: real
  assume "0 < h \<and> tf \<le> 0"
  then have "\<not> js_lt (Fin 0) (Math_floor (Fin tf / Fin h))"
    using quociente_nao_positivo[of h tf] by simp
  then show "eulerAprimorado r K y0 (Fin tf) (Fin h) = Some (Retorna [\<lparr>pt_t = Fin 0, pt_y = y0\<rparr>])"
    by (rule eulerAprimorado_nao_entra)
next
  fix r K y0 :: jsnum and tf :: real
  assume "0 < tf"
  then have "js_lt (Fin 0) (Math_floor (Fin tf / Fin 0))"
    by (simp add: fin_div_zero js_lt_def)
  then show "eulerAprimorado r K y0 (Fin tf) (Fin 0) = Some (Lanca ReferenceError)"
    by (rule eulerAprimorado_lanca)
next
  fix r K y0 tf h :: jsnum and pts
  assume a: "\<not> finito y0 \<and> eulerAprimorado r K y0 tf h = Some (Retorna pts)"
  have "pts = [\<lparr>pt_t = Fin 0, pt_y = y0\<rparr>]"
  proof (cases "js_lt (Fin 0) (Math_floor (tf / h))")
    case True
    from eulerAprimorado_lanca[OF this] a show ?thesis by simp
  next
    case False
    from eulerAprimorado_nao_entra[OF this] a show ?thesis by simp
  qed
  with a show "\<not> todo_finito pts" by (simp add: todo_finito_def)
qed

lemma euler_tf_negativo:
  "euler (Fin (1 / 2)) (Fin 1) (Fin (1 / 2)) (Fin (- 10)) (Fin 5) =
     Some (Retorna [\<lparr>pt_t = Fin 0, pt_y = Fin (1 / 2)\<rparr>])"
proof -
  have "\<not> js_lt (Fin (real 0)) (Math_floor (Fin (- 10) / Fin 5))"
    using quociente_nao_positivo[of 5 "- 10"] by simp
  then show ?thesis
    unfolding euler_def Let_def by (simp add: for_i_nao_entra inicio_def)
qed

lemma euler_h_zero: "euler (Fin (1 / 2)) (Fin 1) (Fin (1 / 2)) (Fin 10) (Fin 0) = None"
  unfolding euler_def Let_def
  by (simp add: fin_div_zero for_i_PInf[of "euler_corpo (Fin (1 / 2)) (Fin 1) (Fin 0)",
        OF euler_corpo_avanca])

section \<open>The properties of the specification\<close>

text \<open>
  C1. For every \<open>r\<close>, \<open>K\<close>, \<open>y0\<close> and every \<open>h > 0\<close>, \<open>tf > 0\<close>, the Runge-Kutta
  integrator (the module and the inline one) advances each step by the classical
  fourth-order recurrence: with \<open>f(t, y) = r * y * (1 - y / K)\<close>, \<open>k1 = f(t_i, y_i)\<close>,
  \<open>k2 = f(t_i + h/2, y_i + (h/2) k1)\<close>, \<open>k3 = f(t_i + h/2, y_i + (h/2) k2)\<close>,
  \<open>k4 = f(t_i + h, y_i + h k3)\<close> and \<open>y_{i+1} = y_i + (h/6)(k1 + 2 k2 + 2 k3 + k4)\<close>.
  Every execution of the loop body is one such step from the current \<open>t\<close> and \<open>y\<close>;
  and when \<open>tf / h\<close> evaluates to the finite number \<open>q\<close>, the integrator returns
  \<open>floor(q) + 1\<close> points, the first with \<open>y = y0\<close> and each next one obtained from the
  one before by the recurrence.
\<close>

theorem rungeKutta4_recorrencia:
  assumes "0 < h" and "0 < tf" and "Fin tf / Fin h = Fin q"
  shows "(\<exists>s'. rungeKutta4_corpo r K (Fin h) s = Retorna s' \<and>
            var_y s' = recorrencia_rk4 r K (Fin h) (var_t s) (var_y s)) \<and>
         (\<exists>s'. rungeKutta4_inline_corpo r K (Fin h) s = Retorna s' \<and>
            var_y s' = recorrencia_rk4 r K (Fin h) (var_t s) (var_y s)) \<and>
         (\<exists>pts ptsi.
           rungeKutta4 r K y0 (Fin tf) (Fin h) = Some (Retorna pts) \<and>
           rungeKutta4_inline r K y0 (Fin tf) (Fin h) = Some (Retorna ptsi) \<and>
           int (length pts) = \<lfloor>q\<rfloor> + 1 \<and>
           int (length ptsi) = \<lfloor>q\<rfloor> + 1 \<and>
           pts ! 0 = \<lparr>pt_t = Fin 0, pt_y = y0\<rparr> \<and>
           ptsi ! 0 = \<lparr>pt_t = Fin 0, pt_y = y0\<rparr> \<and>
           (\<forall>i. int i < \<lfloor>q\<rfloor> \<longrightarrow>
              pt_y (pts ! Suc i) =
                recorrencia_rk4 r K (Fin h) (t_acum (Fin h) i) (pt_y (pts ! i)) \<and>
              pt_y (ptsi ! Suc i) =
                recorrencia_rk4 r K (Fin h) (t_acum (Fin h) i) (pt_y (ptsi ! i))))"
proof -
  have q: "0 \<le> \<lfloor>q\<rfloor>" using quociente_nao_negativo[OF assms] by simp
  have passo: "\<And>i g. int i < \<lfloor>q\<rfloor> \<Longrightarrow>
      pt_y (map (ponto_i (recorrencia_rk4 r K (Fin h)) g (Fin h) y0) [0..<Suc (nat \<lfloor>q\<rfloor>)] ! Suc i) =
      recorrencia_rk4 r K (Fin h) (t_acum (Fin h) i)
        (pt_y (map (ponto_i (recorrencia_rk4 r K (Fin h)) g (Fin h) y0) [0..<Suc (nat \<lfloor>q\<rfloor>)] ! i))"
    by (intro pontos_y_Suc) linarith
  show ?thesis
    unfolding rungeKutta4_fin[OF assms(3)] rungeKutta4_inline_fin[OF assms(3)]
      rungeKutta4_corpo_avanca rungeKutta4_inline_corpo_avanca
    using q passo by (simp add: avanca_def pontos_zero del: upt_Suc)
qed

theorem rungeKutta4_recorrencia_witness:
  "(0::real) < 3602879701896397 / 36028797018963968 \<and> (0::real) < 1 \<and>
   Fin 1 / Fin (3602879701896397 / 36028797018963968) = Fin 10 \<and>
   (\<exists>pts ptsi.
      rungeKutta4 (Fin (1 / 2)) (Fin 1) (Fin (1 / 2)) (Fin 1)
        (Fin (3602879701896397 / 36028797018963968)) = Some (Retorna pts) \<and>
      rungeKutta4_inline (Fin (1 / 2)) (Fin 1) (Fin (1 / 2)) (Fin 1)
        (Fin (3602879701896397 / 36028797018963968)) = Some (Retorna ptsi) \<and>
      length pts = 11 \<and> length ptsi = 11 \<and>
      pts ! 0 = \<lparr>pt_t = Fin 0, pt_y = Fin (1 / 2)\<rparr> \<and>
      ptsi ! 0 = \<lparr>pt_t = Fin 0, pt_y = Fin (1 / 2)\<rparr> \<and>
      pt_y (pts ! 1) =
        recorrencia_rk4 (Fin (1 / 2)) (Fin 1) (Fin (3602879701896397 / 36028797018963968))
          (Fin 0) (Fin (1 / 2)) \<and>
      pt_y (ptsi ! 10) =
        recorrencia_rk4 (Fin (1 / 2)) (Fin 1) (Fin (3602879701896397 / 36028797018963968))
          (t_acum (Fin (3602879701896397 / 36028797018963968)) 9) (pt_y (ptsi ! 9)))"
proof -
  have a: "(0::real) < 3602879701896397 / 36028797018963968" and b: "(0::real) < 1" by simp_all
  note t = rungeKutta4_recorrencia[OF a b quociente_1_h01,
      of "Fin (1 / 2)" "Fin 1" "inicio NaN" "Fin (1 / 2)"]
  from t obtain pts ptsi where
    1: "rungeKutta4 (Fin (1 / 2)) (Fin 1) (Fin (1 / 2)) (Fin 1)
        (Fin (3602879701896397 / 36028797018963968)) = Some (Retorna pts)" and
    2: "rungeKutta4_inline (Fin (1 / 2)) (Fin 1) (Fin (1 / 2)) (Fin 1)
        (Fin (3602879701896397 / 36028797018963968)) = Some (Retorna ptsi)" and
    3: "int (length pts) = \<lfloor>10::real\<rfloor> + 1" and
    4: "int (length ptsi) = \<lfloor>10::real\<rfloor> + 1" and
    5: "pts ! 0 = \<lparr>pt_t = Fin 0, pt_y = Fin (1 / 2)\<rparr>" and
    6: "ptsi ! 0 = \<lparr>pt_t = Fin 0, pt_y = Fin (1 / 2)\<rparr>" and
    7: "\<forall>i. int i < \<lfloor>10::real\<rfloor> \<longrightarrow>
          pt_y (pts ! Suc i) =
            recorrencia_rk4 (Fin (1 / 2)) (Fin 1) (Fin (3602879701896397 / 36028797018963968))
              (t_acum (Fin (3602879701896397 / 36028797018963968)) i) (pt_y (pts ! i)) \<and>
          pt_y (ptsi ! Suc i) =
            recorrencia_rk4 (Fin (1 / 2)) (Fin 1) (Fin (3602879701896397 / 36028797018963968))
              (t_acum (Fin (3602879701896397 / 36028797018963968)) i) (pt_y (ptsi ! i))"
    by blast
  from 3 have l1: "length pts = 11" by simp
  from 4 have l2: "length ptsi = 11" by simp
  from 7[rule_format, of 0] 5 have s0: "pt_y (pts ! 1) =
        recorrencia_rk4 (Fin (1 / 2)) (Fin 1) (Fin (3602879701896397 / 36028797018963968))
          (Fin 0) (Fin (1 / 2))" by simp
  from 7[rule_format, of 9] have s9: "pt_y (ptsi ! 10) =
        recorrencia_rk4 (Fin (1 / 2)) (Fin 1) (Fin (3602879701896397 / 36028797018963968))
          (t_acum (Fin (3602879701896397 / 36028797018963968)) 9) (pt_y (ptsi ! 9))"
    by (simp add: eval_nat_numeral)
  show ?thesis using a b quociente_1_h01 1 2 l1 l2 5 6 s0 s9 by blast
qed

lemma trajetoria_pontos_inline:
  assumes "0 \<le> q"
  shows "trajetoria_de (Some (Retorna (map (ponto_i F (\<lambda>t. t) h y0) [0..<Suc (nat \<lfloor>q\<rfloor>)])))
           y0 q (t_acum h)"
  unfolding trajetoria_de_def using assms
  by (auto simp add: pontos_hd ponto_i_def simp del: upt_Suc)

lemma trajetoria_pontos_modulo:
  assumes "0 \<le> q"
  shows "trajetoria_de
           (Some (Retorna (map (ponto_i F parseFloat_toFixed6 h y0) [0..<Suc (nat \<lfloor>q\<rfloor>)])))
           y0 q (tempo_modulo h)"
  unfolding trajetoria_de_def using assms
  by (auto simp add: pontos_hd ponto_i_def tempo_modulo_def simp del: upt_Suc)

lemma toFixed6_zero: "parseFloat_toFixed6 (Fin 0) = Fin 0"
  by (simp add: parseFloat_toFixed6.simps zero_com_sinal_def)

lemma difere_pontos:
  "difere_so_no_tempo
     (Some (Retorna (map (ponto_i F parseFloat_toFixed6 h y0) [0..<Suc n])))
     (Some (Retorna (map (ponto_i F (\<lambda>t. t) h y0) [0..<Suc n])))"
  unfolding difere_so_no_tempo_def
  by (simp add: ponto_i_def toFixed6_zero del: upt_Suc)

text \<open>
  C2. The improved Euler integrator advances each step by the predictor-corrector
  recurrence \<open>k1 = f(t_i, y_i)\<close>, \<open>k2 = f(t_i + h, y_i + h k1)\<close>,
  \<open>y_{i+1} = y_i + (h/2)(k1 + k2)\<close>, with \<open>f(t, y) = r * y * (1 - y / K)\<close>. The inline
  integrator does: every execution of its loop body is one such step, and when
  \<open>tf / h\<close> evaluates to the finite number \<open>q\<close> it returns \<open>floor(q) + 1\<close> points, the
  first with \<open>y = y0\<close> and each next one obtained from the one before by the
  recurrence. The module does not: its loop body throws ReferenceError, so the call
  throws as soon as there is one step to make (\<open>q \<ge> 1\<close>) and takes no step otherwise.
\<close>

theorem eulerAprimorado_recorrencia:
  assumes "0 < h" and "0 < tf" and "Fin tf / Fin h = Fin q"
  shows "(\<exists>s'. eulerAprimorado_inline_corpo r K (Fin h) s = Retorna s' \<and>
            var_y s' = recorrencia_heun r K (Fin h) (var_t s) (var_y s)) \<and>
         (\<exists>ptsi.
           eulerAprimorado_inline r K y0 (Fin tf) (Fin h) = Some (Retorna ptsi) \<and>
           int (length ptsi) = \<lfloor>q\<rfloor> + 1 \<and>
           ptsi ! 0 = \<lparr>pt_t = Fin 0, pt_y = y0\<rparr> \<and>
           (\<forall>i. int i < \<lfloor>q\<rfloor> \<longrightarrow>
              pt_y (ptsi ! Suc i) =
                recorrencia_heun r K (Fin h) (t_acum (Fin h) i) (pt_y (ptsi ! i)))) \<and>
         eulerAprimorado_corpo r K (Fin h) s = Lanca ReferenceError \<and>
         eulerAprimorado r K y0 (Fin tf) (Fin h) =
           (if 1 \<le> q then Some (Lanca ReferenceError)
            else Some (Retorna [\<lparr>pt_t = Fin 0, pt_y = y0\<rparr>]))"
proof -
  have q: "0 \<le> \<lfloor>q\<rfloor>" using quociente_nao_negativo[OF assms] by simp
  have passo: "\<And>i g. int i < \<lfloor>q\<rfloor> \<Longrightarrow>
      pt_y (map (ponto_i (recorrencia_heun r K (Fin h)) g (Fin h) y0) [0..<Suc (nat \<lfloor>q\<rfloor>)] ! Suc i) =
      recorrencia_heun r K (Fin h) (t_acum (Fin h) i)
        (pt_y (map (ponto_i (recorrencia_heun r K (Fin h)) g (Fin h) y0) [0..<Suc (nat \<lfloor>q\<rfloor>)] ! i))"
    by (intro pontos_y_Suc) linarith
  show ?thesis
    unfolding eulerAprimorado_inline_fin[OF assms(3)] eulerAprimorado_fin[OF assms(3)]
      eulerAprimorado_inline_corpo_avanca eulerAprimorado_corpo_lanca
    using q passo by (simp add: avanca_def pontos_zero del: upt_Suc)
qed

theorem eulerAprimorado_recorrencia_witness:
  "(0::real) < 5 \<and> (0::real) < 100 \<and> Fin 100 / Fin 5 = Fin 20 \<and>
   eulerAprimorado (Fin (3602879701896397 / 72057594037927936)) (Fin 1) (Fin (1 / 2))
     (Fin 100) (Fin 5) = Some (Lanca ReferenceError) \<and>
   (\<exists>ptsi.
      eulerAprimorado_inline (Fin (3602879701896397 / 72057594037927936)) (Fin 1) (Fin (1 / 2))
        (Fin 100) (Fin 5) = Some (Retorna ptsi) \<and>
      length ptsi = 21 \<and>
      ptsi ! 0 = \<lparr>pt_t = Fin 0, pt_y = Fin (1 / 2)\<rparr> \<and>
      pt_y (ptsi ! 1) =
        recorrencia_heun (Fin (3602879701896397 / 72057594037927936)) (Fin 1) (Fin 5)
          (Fin 0) (Fin (1 / 2)))"
proof -
  have a: "(0::real) < 5" and b: "(0::real) < 100" by simp_all
  note t = eulerAprimorado_recorrencia[OF a b quociente_100_5,
      of "Fin (3602879701896397 / 72057594037927936)" "Fin 1" "inicio NaN" "Fin (1 / 2)"]
  from t have m: "eulerAprimorado (Fin (3602879701896397 / 72057594037927936)) (Fin 1)
      (Fin (1 / 2)) (Fin 100) (Fin 5) = Some (Lanca ReferenceError)"
    by simp
  from t obtain ptsi where
    1: "eulerAprimorado_inline (Fin (3602879701896397 / 72057594037927936)) (Fin 1) (Fin (1 / 2))
        (Fin 100) (Fin 5) = Some (Retorna ptsi)" and
    2: "int (length ptsi) = \<lfloor>20::real\<rfloor> + 1" and
    3: "ptsi ! 0 = \<lparr>pt_t = Fin 0, pt_y = Fin (1 / 2)\<rparr>" and
    4: "\<forall>i. int i < \<lfloor>20::real\<rfloor> \<longrightarrow>
          pt_y (ptsi ! Suc i) =
            recorrencia_heun (Fin (3602879701896397 / 72057594037927936)) (Fin 1) (Fin 5)
              (t_acum (Fin 5) i) (pt_y (ptsi ! i))"
    by blast
  from 2 have l: "length ptsi = 21" by simp
  from 4[rule_format, of 0] 3 have s0: "pt_y (ptsi ! 1) =
        recorrencia_heun (Fin (3602879701896397 / 72057594037927936)) (Fin 1) (Fin 5)
          (Fin 0) (Fin (1 / 2))" by simp
  show ?thesis using a b quociente_100_5 m 1 l 3 s0 by blast
qed

text \<open>
  C4. For every \<open>r\<close>, \<open>K\<close>, \<open>y0\<close> and every \<open>h > 0\<close>, \<open>tf > 0\<close> for which \<open>tf / h\<close> evaluates
  to the finite number \<open>q\<close>: the modules of Euler and RK4 and the three inline
  integrators return \<open>floor(q) + 1\<close> points in the order of the steps, the first being
  \<open>{t = 0, y = y0}\<close> and the point at index \<open>i\<close> carrying the time of step \<open>i\<close> (the
  accumulated time, which the modules round to six decimals). The module of improved
  Euler returns no such trajectory as soon as there is a step to make: it throws.
\<close>

theorem integradores_trajetoria:
  assumes "0 < h" and "0 < tf" and "Fin tf / Fin h = Fin q"
  shows "trajetoria_de (euler r K y0 (Fin tf) (Fin h)) y0 q (tempo_modulo (Fin h)) \<and>
         trajetoria_de (rungeKutta4 r K y0 (Fin tf) (Fin h)) y0 q (tempo_modulo (Fin h)) \<and>
         trajetoria_de (euler_inline r K y0 (Fin tf) (Fin h)) y0 q (t_acum (Fin h)) \<and>
         trajetoria_de (eulerAprimorado_inline r K y0 (Fin tf) (Fin h)) y0 q (t_acum (Fin h)) \<and>
         trajetoria_de (rungeKutta4_inline r K y0 (Fin tf) (Fin h)) y0 q (t_acum (Fin h)) \<and>
         trajetoria_de (eulerAprimorado r K y0 (Fin tf) (Fin h)) y0 q (tempo_modulo (Fin h)) =
           (q < 1) \<and>
         (1 \<le> q \<longrightarrow> eulerAprimorado r K y0 (Fin tf) (Fin h) = Some (Lanca ReferenceError))"
proof -
  have q: "0 \<le> q" by (rule quociente_nao_negativo[OF assms])
  have "q < 1 \<Longrightarrow> \<lfloor>q\<rfloor> = 0" using q by linarith
  then have heun: "trajetoria_de (eulerAprimorado r K y0 (Fin tf) (Fin h)) y0 q
      (tempo_modulo (Fin h)) = (q < 1)"
    unfolding eulerAprimorado_fin[OF assms(3)]
    by (auto simp add: trajetoria_de_def tempo_modulo_def)
  show ?thesis
    unfolding euler_fin[OF assms(3)] rungeKutta4_fin[OF assms(3)]
      euler_inline_fin[OF assms(3)] eulerAprimorado_inline_fin[OF assms(3)]
      rungeKutta4_inline_fin[OF assms(3)]
    using heun eulerAprimorado_fin[OF assms(3), of r K y0]
    by (simp add: trajetoria_pontos_inline[OF q] trajetoria_pontos_modulo[OF q] del: upt_Suc)
qed

theorem integradores_trajetoria_witness:
  "(0::real) < 3602879701896397 / 36028797018963968 \<and> (0::real) < 1 \<and>
   Fin 1 / Fin (3602879701896397 / 36028797018963968) = Fin 10 \<and>
   map_option (map_saida length)
     (euler (Fin (1 / 2)) (Fin 1) (Fin (1 / 2)) (Fin 1)
        (Fin (3602879701896397 / 36028797018963968))) = Some (Retorna 11) \<and>
   map_option (map_saida hd)
     (euler (Fin (1 / 2)) (Fin 1) (Fin (1 / 2)) (Fin 1)
        (Fin (3602879701896397 / 36028797018963968))) =
     Some (Retorna \<lparr>pt_t = Fin 0, pt_y = Fin (1 / 2)\<rparr>) \<and>
   map_option (map_saida length)
     (rungeKutta4_inline (Fin (1 / 2)) (Fin 1) (Fin (1 / 2)) (Fin 1)
        (Fin (3602879701896397 / 36028797018963968))) = Some (Retorna 11) \<and>
   eulerAprimorado (Fin (1 / 2)) (Fin 1) (Fin (1 / 2)) (Fin 1)
     (Fin (3602879701896397 / 36028797018963968)) = Some (Lanca ReferenceError) \<and>
   \<not> trajetoria_de
     (eulerAprimorado (Fin (1 / 2)) (Fin 1) (Fin (1 / 2)) (Fin 1)
        (Fin (3602879701896397 / 36028797018963968)))
     (Fin (1 / 2)) 10 (tempo_modulo (Fin (3602879701896397 / 36028797018963968)))"
proof -
  have a: "(0::real) < 3602879701896397 / 36028797018963968" and b: "(0::real) < 1" by simp_all
  note t = integradores_trajetoria[OF a b quociente_1_h01, of "Fin (1 / 2)" "Fin 1" "Fin (1 / 2)"]
  from t have e: "trajetoria_de (euler (Fin (1 / 2)) (Fin 1) (Fin (1 / 2)) (Fin 1)
        (Fin (3602879701896397 / 36028797018963968))) (Fin (1 / 2)) 10
        (tempo_modulo (Fin (3602879701896397 / 36028797018963968)))" by blast
  from t have k: "trajetoria_de (rungeKutta4_inline (Fin (1 / 2)) (Fin 1) (Fin (1 / 2)) (Fin 1)
        (Fin (3602879701896397 / 36028797018963968))) (Fin (1 / 2)) 10
        (t_acum (Fin (3602879701896397 / 36028797018963968)))" by blast
  from t have m: "eulerAprimorado (Fin (1 / 2)) (Fin 1) (Fin (1 / 2)) (Fin 1)
     (Fin (3602879701896397 / 36028797018963968)) = Some (Lanca ReferenceError)" by simp
  from t have n: "\<not> trajetoria_de
     (eulerAprimorado (Fin (1 / 2)) (Fin 1) (Fin (1 / 2)) (Fin 1)
        (Fin (3602879701896397 / 36028797018963968)))
     (Fin (1 / 2)) 10 (tempo_modulo (Fin (3602879701896397 / 36028797018963968)))"
    by (simp add: trajetoria_de_def)
  from e have e1: "map_option (map_saida length)
     (euler (Fin (1 / 2)) (Fin 1) (Fin (1 / 2)) (Fin 1)
        (Fin (3602879701896397 / 36028797018963968))) = Some (Retorna 11)"
    and e2: "map_option (map_saida hd)
     (euler (Fin (1 / 2)) (Fin 1) (Fin (1 / 2)) (Fin 1)
        (Fin (3602879701896397 / 36028797018963968))) =
     Some (Retorna \<lparr>pt_t = Fin 0, pt_y = Fin (1 / 2)\<rparr>)"
    by (auto simp add: trajetoria_de_def split: option.splits saida.splits)
  from k have k1: "map_option (map_saida length)
     (rungeKutta4_inline (Fin (1 / 2)) (Fin 1) (Fin (1 / 2)) (Fin 1)
        (Fin (3602879701896397 / 36028797018963968))) = Some (Retorna 11)"
    by (auto simp add: trajetoria_de_def split: option.splits saida.splits)
  show ?thesis using a b quociente_1_h01 e1 e2 k1 m n by blast
qed

text \<open>
  C8, as amended. No integrator rejects input outside its contract; each runs its loop
  as for any other input. For \<open>h > 0\<close> and \<open>tf \<le> 0\<close> it returns the single point
  \<open>{t = 0, y = y0}\<close>, which is finite when \<open>y0\<close> is; for \<open>h = 0\<close> and \<open>tf > 0\<close> the number
  of steps is infinite and there is no normal return: the loop of the Euler and RK4
  modules and of the three inline integrators never ends, and the module of improved
  Euler throws ReferenceError in its first iteration; and what an integrator returns
  for a non-finite \<open>y0\<close> is not entirely finite. Stated as never returning an entirely
  finite result and never failing to terminate on such input, the property fails:
  the counterexample below has both.
\<close>

theorem entrada_malformada:
  "list_all (sem_validacao None)
     [euler, rungeKutta4, euler_inline, eulerAprimorado_inline, rungeKutta4_inline] \<and>
   sem_validacao (Some (Lanca ReferenceError)) eulerAprimorado"
  by (simp add: sem_validacao_eulerAprimorado
    sem_validacao_laco[of euler_corpo recorrencia_euler parseFloat_toFixed6]
    sem_validacao_laco[of rungeKutta4_corpo recorrencia_rk4 parseFloat_toFixed6]
    sem_validacao_laco[of euler_inline_corpo recorrencia_euler "\<lambda>t. t"]
    sem_validacao_laco[of eulerAprimorado_inline_corpo recorrencia_heun "\<lambda>t. t"]
    sem_validacao_laco[of rungeKutta4_inline_corpo recorrencia_rk4 "\<lambda>t. t"]
    euler_def rungeKutta4_def euler_inline_def
    eulerAprimorado_inline_def rungeKutta4_inline_def Let_def
    euler_corpo_avanca rungeKutta4_corpo_avanca
    euler_inline_corpo_avanca eulerAprimorado_inline_corpo_avanca rungeKutta4_inline_corpo_avanca)

theorem entrada_malformada_witness:
  "(0::real) < 5 \<and> (- 10::real) \<le> 0 \<and>
   rungeKutta4 (Fin (1 / 2)) (Fin 1) (Fin (1 / 2)) (Fin (- 10)) (Fin 5) =
     Some (Retorna [\<lparr>pt_t = Fin 0, pt_y = Fin (1 / 2)\<rparr>]) \<and>
   eulerAprimorado (Fin (1 / 2)) (Fin 1) (Fin (1 / 2)) (Fin (- 10)) (Fin 5) =
     Some (Retorna [\<lparr>pt_t = Fin 0, pt_y = Fin (1 / 2)\<rparr>]) \<and>
   (0::real) < 10 \<and>
   rungeKutta4 (Fin (1 / 2)) (Fin 1) (Fin (1 / 2)) (Fin 10) (Fin 0) = None \<and>
   eulerAprimorado (Fin (1 / 2)) (Fin 1) (Fin (1 / 2)) (Fin 10) (Fin 0) =
     Some (Lanca ReferenceError) \<and>
   \<not> finito NaN \<and>
   euler_inline (Fin (1 / 2)) (Fin 1) NaN (Fin 10) (Fin 5) =
     Some (Retorna
       [\<lparr>pt_t = Fin 0, pt_y = NaN\<rparr>, \<lparr>pt_t = Fin 5, pt_y = NaN\<rparr>, \<lparr>pt_t = Fin 10, pt_y = NaN\<rparr>]) \<and>
   \<not> todo_finito
       [\<lparr>pt_t = Fin 0, pt_y = NaN\<rparr>, \<lparr>pt_t = Fin 5, pt_y = NaN\<rparr>, \<lparr>pt_t = Fin 10, pt_y = NaN\<rparr>]"
proof -
  from entrada_malformada have rk: "sem_validacao None rungeKutta4"
    and ei: "sem_validacao None euler_inline"
    and ea: "sem_validacao (Some (Lanca ReferenceError)) eulerAprimorado"
    by simp_all
  have 1: "rungeKutta4 (Fin (1 / 2)) (Fin 1) (Fin (1 / 2)) (Fin (- 10)) (Fin 5) =
     Some (Retorna [\<lparr>pt_t = Fin 0, pt_y = Fin (1 / 2)\<rparr>])"
    using rk unfolding sem_validacao_def by simp
  have 2: "eulerAprimorado (Fin (1 / 2)) (Fin 1) (Fin (1 / 2)) (Fin (- 10)) (Fin 5) =
     Some (Retorna [\<lparr>pt_t = Fin 0, pt_y = Fin (1 / 2)\<rparr>])"
    using ea unfolding sem_validacao_def by simp
  have 3: "rungeKutta4 (Fin (1 / 2)) (Fin 1) (Fin (1 / 2)) (Fin 10) (Fin 0) = None"
    using rk unfolding sem_validacao_def by simp
  have 4: "eulerAprimorado (Fin (1 / 2)) (Fin 1) (Fin (1 / 2)) (Fin 10) (Fin 0) =
     Some (Lanca ReferenceError)"
    using ea unfolding sem_validacao_def by simp
  have nan: "\<And>t. recorrencia_euler (Fin (1 / 2)) (Fin 1) (Fin 5) t NaN = NaN"
    by (simp add: recorrencia_euler_def plus_jsnum_def times_jsnum_def divide_jsnum_def
        minus_jsnum_def js_add_def js_mul_def js_div_def js_neg_def)
  have t5: "Fin 0 + Fin 5 = Fin 5"
    using arredonda_inteiro[of 5] by (simp add: fin_add)
  have t10: "Fin 5 + Fin 5 = Fin 10"
    using arredonda_inteiro[of 10] by (simp add: fin_add)
  have 5: "euler_inline (Fin (1 / 2)) (Fin 1) NaN (Fin 10) (Fin 5) =
     Some (Retorna
       [\<lparr>pt_t = Fin 0, pt_y = NaN\<rparr>, \<lparr>pt_t = Fin 5, pt_y = NaN\<rparr>, \<lparr>pt_t = Fin 10, pt_y = NaN\<rparr>])"
    by (simp add: euler_inline_fin[OF quociente_10_5] upt_conv_Cons ponto_i_def nan t5 t10
        del: upt_Suc)
  have 6: "\<not> todo_finito
       [\<lparr>pt_t = Fin 0, pt_y = NaN\<rparr>, \<lparr>pt_t = Fin 5, pt_y = NaN\<rparr>, \<lparr>pt_t = Fin 10, pt_y = NaN\<rparr>]"
    using ei 5 unfolding sem_validacao_def by (metis finito.simps(5))
  show ?thesis using 1 2 3 4 5 6 by simp
qed

theorem entrada_malformada_counterexample:
  "js_le (Fin (- 10)) (Fin 0) \<and>
   euler (Fin (1 / 2)) (Fin 1) (Fin (1 / 2)) (Fin (- 10)) (Fin 5) =
     Some (Retorna [\<lparr>pt_t = Fin 0, pt_y = Fin (1 / 2)\<rparr>]) \<and>
   todo_finito [\<lparr>pt_t = Fin 0, pt_y = Fin (1 / 2)\<rparr>] \<and>
   js_le (Fin 0) (Fin 0) \<and>
   euler (Fin (1 / 2)) (Fin 1) (Fin (1 / 2)) (Fin 10) (Fin 0) = None"
  unfolding euler_tf_negativo euler_h_zero
  by (simp add: js_le_def js_lt_def todo_finito_def)

text \<open>
  C10. For every \<open>r\<close>, \<open>K\<close>, \<open>y0\<close> and every \<open>h > 0\<close>, \<open>tf > 0\<close> for which \<open>tf / h\<close>
  evaluates to the finite number \<open>q\<close>: the modules of Euler and RK4 and the inline
  integrators of the same names return lists of the same length with the same \<open>y\<close>
  at every index; only the stored \<open>t\<close> differs, the module's being the inline one's
  after \<open>parseFloat(t.toFixed(6))\<close>. The module of improved Euler does not match its
  inline namesake as soon as there is a step to make: the module throws where the
  inline integrator returns \<open>floor(q) + 1\<close> points.
\<close>

theorem modulos_e_inline:
  assumes "0 < h" and "0 < tf" and "Fin tf / Fin h = Fin q"
  shows "difere_so_no_tempo (euler r K y0 (Fin tf) (Fin h)) (euler_inline r K y0 (Fin tf) (Fin h)) \<and>
         difere_so_no_tempo (rungeKutta4 r K y0 (Fin tf) (Fin h))
           (rungeKutta4_inline r K y0 (Fin tf) (Fin h)) \<and>
         difere_so_no_tempo (eulerAprimorado r K y0 (Fin tf) (Fin h))
           (eulerAprimorado_inline r K y0 (Fin tf) (Fin h)) = (q < 1) \<and>
         (1 \<le> q \<longrightarrow>
            eulerAprimorado r K y0 (Fin tf) (Fin h) = Some (Lanca ReferenceError) \<and>
            (\<exists>ptsi. eulerAprimorado_inline r K y0 (Fin tf) (Fin h) = Some (Retorna ptsi) \<and>
               int (length ptsi) = \<lfloor>q\<rfloor> + 1))"
proof -
  have q: "0 \<le> q" by (rule quociente_nao_negativo[OF assms])
  have z: "q < 1 \<Longrightarrow> nat \<lfloor>q\<rfloor> = 0" using q by linarith
  have heun: "difere_so_no_tempo (eulerAprimorado r K y0 (Fin tf) (Fin h))
           (eulerAprimorado_inline r K y0 (Fin tf) (Fin h)) = (q < 1)"
    unfolding eulerAprimorado_fin[OF assms(3)] eulerAprimorado_inline_fin[OF assms(3)]
    using z by (auto simp add: difere_so_no_tempo_def ponto_i_def toFixed6_zero)
  have len: "int (length (map (ponto_i (recorrencia_heun r K (Fin h)) (\<lambda>t. t) (Fin h) y0)
      [0..<Suc (nat \<lfloor>q\<rfloor>)])) = \<lfloor>q\<rfloor> + 1"
    using q by (simp del: upt_Suc)
  show ?thesis
    unfolding euler_fin[OF assms(3)] rungeKutta4_fin[OF assms(3)]
      euler_inline_fin[OF assms(3)] rungeKutta4_inline_fin[OF assms(3)]
    using heun eulerAprimorado_fin[OF assms(3), of r K y0]
      eulerAprimorado_inline_fin[OF assms(3), of r K y0] len
    by (simp add: difere_pontos del: upt_Suc)
qed

theorem modulos_e_inline_witness:
  "(0::real) < 5 \<and> (0::real) < 100 \<and> Fin 100 / Fin 5 = Fin 20 \<and>
   difere_so_no_tempo
     (euler (Fin (3602879701896397 / 72057594037927936)) (Fin 1) (Fin (1 / 2)) (Fin 100) (Fin 5))
     (euler_inline (Fin (3602879701896397 / 72057594037927936)) (Fin 1) (Fin (1 / 2))
        (Fin 100) (Fin 5)) \<and>
   difere_so_no_tempo
     (rungeKutta4 (Fin (3602879701896397 / 72057594037927936)) (Fin 1) (Fin (1 / 2))
        (Fin 100) (Fin 5))
     (rungeKutta4_inline (Fin (3602879701896397 / 72057594037927936)) (Fin 1) (Fin (1 / 2))
        (Fin 100) (Fin 5)) \<and>
   \<not> difere_so_no_tempo
     (eulerAprimorado (Fin (3602879701896397 / 72057594037927936)) (Fin 1) (Fin (1 / 2))
        (Fin 100) (Fin 5))
     (eulerAprimorado_inline (Fin (3602879701896397 / 72057594037927936)) (Fin 1) (Fin (1 / 2))
        (Fin 100) (Fin 5)) \<and>
   eulerAprimorado (Fin (3602879701896397 / 72057594037927936)) (Fin 1) (Fin (1 / 2))
     (Fin 100) (Fin 5) = Some (Lanca ReferenceError) \<and>
   map_option (map_saida length)
     (eulerAprimorado_inline (Fin (3602879701896397 / 72057594037927936)) (Fin 1) (Fin (1 / 2))
        (Fin 100) (Fin 5)) = Some (Retorna 21)"
proof -
  have a: "(0::real) < 5" and b: "(0::real) < 100" by simp_all
  note t = modulos_e_inline[OF a b quociente_100_5,
      of "Fin (3602879701896397 / 72057594037927936)" "Fin 1" "Fin (1 / 2)"]
  from t obtain ptsi where
    1: "eulerAprimorado_inline (Fin (3602879701896397 / 72057594037927936)) (Fin 1) (Fin (1 / 2))
        (Fin 100) (Fin 5) = Some (Retorna ptsi)" and
    2: "int (length ptsi) = \<lfloor>20::real\<rfloor> + 1"
    by auto
  from 2 have "length ptsi = 21" by simp
  with 1 have l: "map_option (map_saida length)
     (eulerAprimorado_inline (Fin (3602879701896397 / 72057594037927936)) (Fin 1) (Fin (1 / 2))
        (Fin 100) (Fin 5)) = Some (Retorna 21)" by simp
  from t have m: "eulerAprimorado (Fin (3602879701896397 / 72057594037927936)) (Fin 1)
     (Fin (1 / 2)) (Fin 100) (Fin 5) = Some (Lanca ReferenceError)" by simp
  from t have n: "\<not> difere_so_no_tempo
     (eulerAprimorado (Fin (3602879701896397 / 72057594037927936)) (Fin 1) (Fin (1 / 2))
        (Fin 100) (Fin 5))
     (eulerAprimorado_inline (Fin (3602879701896397 / 72057594037927936)) (Fin 1) (Fin (1 / 2))
        (Fin 100) (Fin 5))" by (simp add: difere_so_no_tempo_def)
  show ?thesis using a b quociente_100_5 t l m n by blast
qed

text \<open>
  Every \<open>j * 2^s\<close> with \<open>0 < j \<le> 2^53\<close> and \<open>s\<close> from \<open>-1022\<close> to \<open>970\<close> is a
  number: rounding leaves it as it is.
\<close>

lemma arredonda_diadico:
  assumes "0 < j" and "j \<le> 2 ^ 53" and "- 1022 \<le> s" and "s \<le> 970"
  shows "arredonda (of_int j * 2 powi s) = Fin (of_int j * 2 powi s)"
proof -
  have "1 \<le> nat j" using assms by simp
  from ex_power_ivl1[of 2 "nat j", OF _ this] obtain n where
    n: "2 ^ n \<le> nat j" "nat j < 2 ^ (n + 1)" by auto
  have lo: "(2::int) ^ n \<le> j" using n(1) assms(1) by (simp add: le_nat_iff)
  have hi: "j < 2 ^ (n + 1)" using n(2) assms(1) by (simp add: nat_less_iff)
  from lo assms(2) have "(2::int) ^ n \<le> 2 ^ 53" by (rule order_trans)
  then have n53: "n \<le> 53" by (rule power_le_imp_le_exp[rotated]) simp
  have lor: "(2::real) ^ n \<le> of_int j"
    using lo by (metis of_int_le_iff of_int_numeral of_int_power)
  have hir: "of_int j < (2::real) ^ (n + 1)"
    using hi by (metis of_int_less_iff of_int_numeral of_int_power)
  have j53: "(of_int j :: real) \<le> 2 ^ 53"
    using assms(2) by (metis of_int_le_iff of_int_numeral of_int_power)
  have pos: "(0::real) < 2 powi s" by simp
  have "(2::real) powi s \<le> 2 powi 970"
    using assms(4) by (intro power_int_increasing) simp_all
  then have s970: "(2::real) powi s \<le> 2 ^ 970" by simp
  have "of_int j * (2::real) powi s \<le> 2 ^ 53 * 2 powi s"
    using j53 pos by (intro mult_right_mono) simp_all
  also have "\<dots> \<le> 2 ^ 53 * 2 ^ 970" using s970 by (intro mult_left_mono) simp_all
  also have "\<dots> < (2::real) ^ 1024" by simp
  finally have lim: "of_int j * (2::real) powi s < 2 ^ 1024" .
  show ?thesis
  proof (cases "n \<le> 52")
    case True
    define k where "k = 52 - n"
    have e: "int n + s - 52 = s - int k" using True by (simp add: k_def)
    have q: "of_int j * 2 powi s / 2 powi (int n + s - 52) = (of_int (j * 2 ^ k) :: real)"
      unfolding e by (simp add: power_int_diff)
    show ?thesis
    proof (rule arredonda_pos[where e = "int n + s" and m = "j * 2 ^ k"])
      have "(2::real) powi (int n + s) = 2 ^ n * 2 powi s" by (simp add: power_int_add)
      also have "\<dots> \<le> of_int j * 2 powi s" using lor pos by (intro mult_right_mono) simp_all
      finally show "2 powi (int n + s) \<le> (of_int j :: real) * 2 powi s" .
      have "of_int j * (2::real) powi s < 2 ^ (n + 1) * 2 powi s"
        using hir pos by (intro mult_strict_right_mono) simp_all
      also have "\<dots> = 2 powi (int n + s + 1)" by (simp add: power_int_add)
      finally show "(of_int j :: real) * 2 powi s < 2 powi (int n + s + 1)" .
      show "- 1022 \<le> int n + s" using assms(3) by simp
      show "int n + s \<le> 1023" using True assms(4) by simp
      show "round_even (of_int j * 2 powi s / 2 powi (int n + s - 52)) = j * 2 ^ k"
        unfolding q by (rule round_even_int)
      show "(of_int j :: real) * 2 powi s = of_int (j * 2 ^ k) * 2 powi (int n + s - 52)"
        unfolding e by (simp add: power_int_diff)
      show "(of_int j :: real) * 2 powi s < 2 ^ 1024" by (rule lim)
    qed
  next
    case False
    with n53 have n: "n = 53" by simp
    with lo assms(2) have j: "j = 2 ^ 53" by simp
    have q: "(2::real) ^ 53 * 2 powi s / 2 powi (53 + s - 52) = of_int (2 ^ 52)"
      by (simp add: power_int_add)
    show ?thesis
      unfolding j
    proof (rule arredonda_pos[where e = "53 + s" and m = "2 ^ 52"])
      show "2 powi (53 + s) \<le> (of_int (2 ^ 53) :: real) * 2 powi s" by (simp add: power_int_add)
      show "(of_int (2 ^ 53) :: real) * 2 powi s < 2 powi (53 + s + 1)" by (simp add: power_int_add)
      show "- 1022 \<le> 53 + s" using assms(3) by simp
      show "53 + s \<le> 1023" using assms(4) by simp
      have "(of_int (2 ^ 53) :: real) * 2 powi s / 2 powi (53 + s - 52) = of_int (2 ^ 52)"
        using q by simp
      then show "round_even (of_int (2 ^ 53) * 2 powi s / 2 powi (53 + s - 52)) = 2 ^ 52"
        by (simp only: round_even_int)
      show "(of_int (2 ^ 53) :: real) * 2 powi s = of_int (2 ^ 52) * 2 powi (53 + s - 52)"
        by (simp add: power_int_add)
      show "(of_int (2 ^ 53) :: real) * 2 powi s < 2 ^ 1024" using lim j by simp
    qed
  qed
qed

text \<open>
  A step \<open>h = j * 2^s\<close> whose multiples up to \<open>n * h\<close> have \<open>n * j \<le> 2^53\<close>: the additions
  \<open>t = t + h\<close> and the products \<open>i * h\<close> are exact, and agree.
\<close>

lemma t_acum_diadico:
  assumes "0 < j" and "- 1022 \<le> s" and "s \<le> 970" and "int i * j \<le> 2 ^ 53"
  shows "t_acum (Fin (of_int j * 2 powi s)) i = Fin (of_int (int i * j) * 2 powi s)"
  using assms(4)
proof (induction i)
  case 0
  show ?case by simp
next
  case (Suc i)
  have "int i * j \<le> int (Suc i) * j" using assms(1) by (simp add: algebra_simps)
  with Suc.prems have "int i * j \<le> 2 ^ 53" by linarith
  from Suc.IH[OF this] have ih: "t_acum (Fin (of_int j * 2 powi s)) i =
      Fin (of_int (int i * j) * 2 powi s)" .
  have pos: "0 < int (Suc i) * j" using assms(1) by simp
  have sum: "of_int (int i * j) * 2 powi s + of_int j * 2 powi s =
      (of_int (int (Suc i) * j) :: real) * 2 powi s"
    by (simp add: algebra_simps)
  have nz: "(of_int (int (Suc i) * j) :: real) * 2 powi s \<noteq> 0"
    using pos by (metis less_irrefl mult_eq_0_iff of_int_eq_0_iff power_int_eq_0_iff zero_neq_numeral)
  have "t_acum (Fin (of_int j * 2 powi s)) (Suc i) =
      Fin (of_int (int i * j) * 2 powi s) + Fin (of_int j * 2 powi s)"
    using ih by simp
  also have "\<dots> = arredonda (of_int (int (Suc i) * j) * 2 powi s)"
    unfolding fin_add sum using nz by simp
  also have "\<dots> = Fin (of_int (int (Suc i) * j) * 2 powi s)"
    using pos Suc.prems assms(2,3) by (intro arredonda_diadico) simp_all
  finally show ?case .
qed

lemma grade_diadica:
  assumes "0 < j" and "- 1022 \<le> s" and "s \<le> 970" and "int i * j \<le> 2 ^ 53"
  shows "Fin (real i) * Fin (of_int j * 2 powi s) = Fin (of_int (int i * j) * 2 powi s)"
proof (cases "i = 0")
  case True
  have "(0::real) \<le> of_int j * 2 powi s" using assms(1) by simp
  then have "\<not> (of_int j :: real) * 2 powi s < 0" by linarith
  then show ?thesis using True by (simp add: fin_mul zero_com_sinal_def)
next
  case False
  then have pos: "0 < int i * j" using assms(1) by simp
  have prod: "real i * (of_int j * 2 powi s) = (of_int (int i * j) :: real) * 2 powi s"
    by simp
  have nz: "(of_int (int i * j) :: real) * 2 powi s \<noteq> 0"
    using pos by (metis less_irrefl mult_eq_0_iff of_int_eq_0_iff power_int_eq_0_iff zero_neq_numeral)
  have "Fin (real i) * Fin (of_int j * 2 powi s) = arredonda (of_int (int i * j) * 2 powi s)"
    unfolding fin_mul prod using nz by simp
  also have "\<dots> = Fin (of_int (int i * j) * 2 powi s)"
    using pos assms by (intro arredonda_diadico) simp_all
  finally show ?thesis .
qed

lemma tempos_alinhados:
  assumes "0 < j" and "- 1022 \<le> s" and "s \<le> 970" and "(int n + 1) * j \<le> 2 ^ 53"
  shows "tempos_acumulados (Fin (of_int j * 2 powi s)) n =
         map (\<lambda>i. Fin (real i) * Fin (of_int j * 2 powi s)) [0..<Suc n]"
proof -
  have lim: "\<And>i. i < Suc n \<Longrightarrow> int i * j \<le> 2 ^ 53"
  proof -
    fix i
    assume "i < Suc n"
    then have "int i \<le> int n + 1" by simp
    then have "int i * j \<le> (int n + 1) * j" using assms(1) by (intro mult_right_mono) simp_all
    with assms(4) show "int i * j \<le> 2 ^ 53" by linarith
  qed
  have "\<And>i. i \<in> set [0..<Suc n] \<Longrightarrow>
      t_acum (Fin (of_int j * 2 powi s)) i = Fin (real i) * Fin (of_int j * 2 powi s)"
  proof -
    fix i
    assume "i \<in> set [0..<Suc n]"
    then have "i < Suc n" by (simp del: upt_Suc)
    from lim[OF this] have l: "int i * j \<le> 2 ^ 53" .
    show "t_acum (Fin (of_int j * 2 powi s)) i = Fin (real i) * Fin (of_int j * 2 powi s)"
      unfolding t_acum_diadico[OF assms(1-3) l] grade_diadica[OF assms(1-3) l] by (rule refl)
  qed
  then show ?thesis
    unfolding tempos_acumulados_def by (intro map_cong refl)
qed

text \<open>The time grids of the two comparators.\<close>

lemma nPontos_fin:
  assumes "0 \<le> q" and "q < 2 ^ 53"
  shows "Math_floor (Fin q) + Fin 1 = Fin (of_int (\<lfloor>q\<rfloor> + 1))"
proof -
  have "\<lfloor>q\<rfloor> < 2 ^ 53" using assms(2) by (simp add: floor_less_iff)
  moreover have "0 \<le> \<lfloor>q\<rfloor>" using assms(1) by simp
  ultimately have "arredonda (of_int (\<lfloor>q\<rfloor> + 1)) = Fin (of_int (\<lfloor>q\<rfloor> + 1))"
    by (intro arredonda_inteiro) simp_all
  moreover have "(of_int \<lfloor>q\<rfloor> :: real) + 1 \<noteq> 0" using \<open>0 \<le> \<lfloor>q\<rfloor>\<close> by linarith
  ultimately show ?thesis by (simp add: fin_add)
qed

lemma tempos_multiplo_fin:
  assumes "tf / h = Fin q" and "0 \<le> q" and "q < 2 ^ 53"
  shows "tempos_multiplo tf h = Some (map (\<lambda>i. Fin (real i) * h) [0..<Suc (nat \<lfloor>q\<rfloor>)])"
proof -
  have "0 \<le> \<lfloor>q\<rfloor>" using assms(2) by simp
  then have "nat (\<lfloor>q\<rfloor> + 1) = Suc (nat \<lfloor>q\<rfloor>)" by linarith
  then show ?thesis
    unfolding tempos_multiplo_def Let_def assms(1) nPontos_fin[OF assms(2,3)]
    by (simp add: Array_from_def del: upt_Suc)
qed

lemma tempos_corrigido_fin:
  assumes "tf / h = Fin q" and "0 \<le> q" and "q < 2 ^ 53"
  shows "tempos_corrigido tf h =
         Some (map (\<lambda>i. parseFloat_toFixed6 (Fin (real i) * h)) [0..<Suc (nat \<lfloor>q\<rfloor>)])"
proof -
  have "0 \<le> \<lfloor>q\<rfloor>" using assms(2) by simp
  then have "nat (\<lfloor>q\<rfloor> + 1) = Suc (nat \<lfloor>q\<rfloor>)" by linarith
  then show ?thesis
    unfolding tempos_corrigido_def Let_def assms(1) nPontos_fin[OF assms(2,3)]
    by (simp add: Array_from_def del: upt_Suc)
qed

section \<open>The step 0.1: accumulated times and products\<close>

text \<open>
  The number nearest to \<open>0.1\<close> is \<open>3602879701896397 / 2^55\<close>. The sums below are the
  additions \<open>t = t + h\<close> of ten steps with this \<open>h\<close>, the products are \<open>i * h\<close>.
\<close>

lemma soma_h01_0:
  "Fin 0 + Fin (3602879701896397 / 36028797018963968) =
   Fin (3602879701896397 / 36028797018963968)"
proof -
  have "arredonda (0 + (3602879701896397 / 36028797018963968)) =
        Fin (3602879701896397 / 36028797018963968)"
    by (rule arredonda_pos[where e = "-4" and m = 7205759403792794])
      (simp_all add: round_even_def power_int_minus)
  then show ?thesis by (simp add: fin_add)
qed

lemma soma_h01_1:
  "Fin (3602879701896397 / 36028797018963968) + Fin (3602879701896397 / 36028797018963968) =
   Fin (3602879701896397 / 18014398509481984)"
proof -
  have "arredonda ((3602879701896397 / 36028797018963968) + (3602879701896397 / 36028797018963968)) =
        Fin (3602879701896397 / 18014398509481984)"
    by (rule arredonda_pos[where e = "-3" and m = 7205759403792794])
      (simp_all add: round_even_def power_int_minus)
  then show ?thesis by (simp add: fin_add)
qed

lemma soma_h01_2:
  "Fin (3602879701896397 / 18014398509481984) + Fin (3602879701896397 / 36028797018963968) =
   Fin (1351079888211149 / 4503599627370496)"
proof -
  have "arredonda ((3602879701896397 / 18014398509481984) + (3602879701896397 / 36028797018963968)) =
        Fin (1351079888211149 / 4503599627370496)"
    by (rule arredonda_pos[where e = "-2" and m = 5404319552844596])
      (simp_all add: round_even_def power_int_minus)
  then show ?thesis by (simp add: fin_add)
qed

lemma soma_h01_3:
  "Fin (1351079888211149 / 4503599627370496) + Fin (3602879701896397 / 36028797018963968) =
   Fin (3602879701896397 / 9007199254740992)"
proof -
  have "arredonda ((1351079888211149 / 4503599627370496) + (3602879701896397 / 36028797018963968)) =
        Fin (3602879701896397 / 9007199254740992)"
    by (rule arredonda_pos[where e = "-2" and m = 7205759403792794])
      (simp_all add: round_even_def power_int_minus)
  then show ?thesis by (simp add: fin_add)
qed

lemma soma_h01_4:
  "Fin (3602879701896397 / 9007199254740992) + Fin (3602879701896397 / 36028797018963968) =
   Fin (1 / 2)"
proof -
  have "arredonda ((3602879701896397 / 9007199254740992) + (3602879701896397 / 36028797018963968)) =
        Fin (1 / 2)"
    by (rule arredonda_pos[where e = "-1" and m = 4503599627370496])
      (simp_all add: round_even_def power_int_minus)
  then show ?thesis by (simp add: fin_add)
qed

lemma soma_h01_5:
  "Fin (1 / 2) + Fin (3602879701896397 / 36028797018963968) =
   Fin (5404319552844595 / 9007199254740992)"
proof -
  have "arredonda ((1 / 2) + (3602879701896397 / 36028797018963968)) =
        Fin (5404319552844595 / 9007199254740992)"
    by (rule arredonda_pos[where e = "-1" and m = 5404319552844595])
      (simp_all add: round_even_def power_int_minus)
  then show ?thesis by (simp add: fin_add)
qed

lemma soma_h01_6:
  "Fin (5404319552844595 / 9007199254740992) + Fin (3602879701896397 / 36028797018963968) =
   Fin (3152519739159347 / 4503599627370496)"
proof -
  have "arredonda ((5404319552844595 / 9007199254740992) + (3602879701896397 / 36028797018963968)) =
        Fin (3152519739159347 / 4503599627370496)"
    by (rule arredonda_pos[where e = "-1" and m = 6305039478318694])
      (simp_all add: round_even_def power_int_minus)
  then show ?thesis by (simp add: fin_add)
qed

lemma soma_h01_7:
  "Fin (3152519739159347 / 4503599627370496) + Fin (3602879701896397 / 36028797018963968) =
   Fin (7205759403792793 / 9007199254740992)"
proof -
  have "arredonda ((3152519739159347 / 4503599627370496) + (3602879701896397 / 36028797018963968)) =
        Fin (7205759403792793 / 9007199254740992)"
    by (rule arredonda_pos[where e = "-1" and m = 7205759403792793])
      (simp_all add: round_even_def power_int_minus)
  then show ?thesis by (simp add: fin_add)
qed

lemma soma_h01_8:
  "Fin (7205759403792793 / 9007199254740992) + Fin (3602879701896397 / 36028797018963968) =
   Fin (2026619832316723 / 2251799813685248)"
proof -
  have "arredonda ((7205759403792793 / 9007199254740992) + (3602879701896397 / 36028797018963968)) =
        Fin (2026619832316723 / 2251799813685248)"
    by (rule arredonda_pos[where e = "-1" and m = 8106479329266892])
      (simp_all add: round_even_def power_int_minus)
  then show ?thesis by (simp add: fin_add)
qed

lemma soma_h01_9:
  "Fin (2026619832316723 / 2251799813685248) + Fin (3602879701896397 / 36028797018963968) =
   Fin (9007199254740991 / 9007199254740992)"
proof -
  have "arredonda ((2026619832316723 / 2251799813685248) + (3602879701896397 / 36028797018963968)) =
        Fin (9007199254740991 / 9007199254740992)"
    by (rule arredonda_pos[where e = "-1" and m = 9007199254740991])
      (simp_all add: round_even_def power_int_minus)
  then show ?thesis by (simp add: fin_add)
qed

lemma produto_h01_1:
  "Fin 1 * Fin (3602879701896397 / 36028797018963968) =
   Fin (3602879701896397 / 36028797018963968)"
proof -
  have "arredonda (1 * (3602879701896397 / 36028797018963968)) =
        Fin (3602879701896397 / 36028797018963968)"
    by (rule arredonda_pos[where e = "-4" and m = 7205759403792794])
      (simp_all add: round_even_def power_int_minus)
  then show ?thesis by (simp add: fin_mul)
qed

lemma produto_h01_2:
  "Fin 2 * Fin (3602879701896397 / 36028797018963968) =
   Fin (3602879701896397 / 18014398509481984)"
proof -
  have "arredonda (2 * (3602879701896397 / 36028797018963968)) =
        Fin (3602879701896397 / 18014398509481984)"
    by (rule arredonda_pos[where e = "-3" and m = 7205759403792794])
      (simp_all add: round_even_def power_int_minus)
  then show ?thesis by (simp add: fin_mul)
qed

lemma produto_h01_3:
  "Fin 3 * Fin (3602879701896397 / 36028797018963968) =
   Fin (1351079888211149 / 4503599627370496)"
proof -
  have "arredonda (3 * (3602879701896397 / 36028797018963968)) =
        Fin (1351079888211149 / 4503599627370496)"
    by (rule arredonda_pos[where e = "-2" and m = 5404319552844596])
      (simp_all add: round_even_def power_int_minus)
  then show ?thesis by (simp add: fin_mul)
qed

lemma produto_h01_4:
  "Fin 4 * Fin (3602879701896397 / 36028797018963968) =
   Fin (3602879701896397 / 9007199254740992)"
proof -
  have "arredonda (4 * (3602879701896397 / 36028797018963968)) =
        Fin (3602879701896397 / 9007199254740992)"
    by (rule arredonda_pos[where e = "-2" and m = 7205759403792794])
      (simp_all add: round_even_def power_int_minus)
  then show ?thesis by (simp add: fin_mul)
qed

lemma produto_h01_5:
  "Fin 5 * Fin (3602879701896397 / 36028797018963968) =
   Fin (1 / 2)"
proof -
  have "arredonda (5 * (3602879701896397 / 36028797018963968)) =
        Fin (1 / 2)"
    by (rule arredonda_pos[where e = "-1" and m = 4503599627370496])
      (simp_all add: round_even_def power_int_minus)
  then show ?thesis by (simp add: fin_mul)
qed

lemma produto_h01_6:
  "Fin 6 * Fin (3602879701896397 / 36028797018963968) =
   Fin (1351079888211149 / 2251799813685248)"
proof -
  have "arredonda (6 * (3602879701896397 / 36028797018963968)) =
        Fin (1351079888211149 / 2251799813685248)"
    by (rule arredonda_pos[where e = "-1" and m = 5404319552844596])
      (simp_all add: round_even_def power_int_minus)
  then show ?thesis by (simp add: fin_mul)
qed

lemma produto_h01_7:
  "Fin 7 * Fin (3602879701896397 / 36028797018963968) =
   Fin (6305039478318695 / 9007199254740992)"
proof -
  have "arredonda (7 * (3602879701896397 / 36028797018963968)) =
        Fin (6305039478318695 / 9007199254740992)"
    by (rule arredonda_pos[where e = "-1" and m = 6305039478318695])
      (simp_all add: round_even_def power_int_minus)
  then show ?thesis by (simp add: fin_mul)
qed

lemma produto_h01_8:
  "Fin 8 * Fin (3602879701896397 / 36028797018963968) =
   Fin (3602879701896397 / 4503599627370496)"
proof -
  have "arredonda (8 * (3602879701896397 / 36028797018963968)) =
        Fin (3602879701896397 / 4503599627370496)"
    by (rule arredonda_pos[where e = "-1" and m = 7205759403792794])
      (simp_all add: round_even_def power_int_minus)
  then show ?thesis by (simp add: fin_mul)
qed

lemma produto_h01_9:
  "Fin 9 * Fin (3602879701896397 / 36028797018963968) =
   Fin (8106479329266893 / 9007199254740992)"
proof -
  have "arredonda (9 * (3602879701896397 / 36028797018963968)) =
        Fin (8106479329266893 / 9007199254740992)"
    by (rule arredonda_pos[where e = "-1" and m = 8106479329266893])
      (simp_all add: round_even_def power_int_minus)
  then show ?thesis by (simp add: fin_mul)
qed

lemma produto_h01_10:
  "Fin 10 * Fin (3602879701896397 / 36028797018963968) =
   Fin 1"
proof -
  have "arredonda (10 * (3602879701896397 / 36028797018963968)) =
        Fin 1"
    by (rule arredonda_pos[where e = "0" and m = 4503599627370496])
      (simp_all add: round_even_def power_int_minus)
  then show ?thesis by (simp add: fin_mul)
qed

lemma soma_10_1:
  "Fin 10 + Fin 1 =
   Fin 11"
proof -
  have "arredonda (10 + 1) =
        Fin 11"
    by (rule arredonda_pos[where e = "3" and m = 6192449487634432])
      (simp_all add: round_even_def power_int_minus)
  then show ?thesis by (simp add: fin_add)
qed

lemma produto_h01_0: "Fin 0 * Fin (3602879701896397 / 36028797018963968) = Fin 0"
  by (simp add: fin_mul zero_com_sinal_def)

lemma upt_11: "[0..<11] = [0, 1, 2, 3, 4, 5, 6, 7, 8, 9, 10::nat]"
  by (simp add: upt_rec)

lemma t_acum_h01:
  "map (t_acum (Fin (3602879701896397 / 36028797018963968))) [0..<11] =
     [Fin 0,
      Fin (3602879701896397 / 36028797018963968),
      Fin (3602879701896397 / 18014398509481984),
      Fin (1351079888211149 / 4503599627370496),
      Fin (3602879701896397 / 9007199254740992),
      Fin (1 / 2),
      Fin (5404319552844595 / 9007199254740992),
      Fin (3152519739159347 / 4503599627370496),
      Fin (7205759403792793 / 9007199254740992),
      Fin (2026619832316723 / 2251799813685248),
      Fin (9007199254740991 / 9007199254740992)]"
  unfolding upt_11
  by (simp add: eval_nat_numeral soma_h01_0 soma_h01_1 soma_h01_2 soma_h01_3 soma_h01_4
      soma_h01_5 soma_h01_6 soma_h01_7 soma_h01_8 soma_h01_9)

lemma grade_h01:
  "map (\<lambda>i. Fin (real i) * Fin (3602879701896397 / 36028797018963968)) [0..<11] =
     [Fin 0,
      Fin (3602879701896397 / 36028797018963968),
      Fin (3602879701896397 / 18014398509481984),
      Fin (1351079888211149 / 4503599627370496),
      Fin (3602879701896397 / 9007199254740992),
      Fin (1 / 2),
      Fin (1351079888211149 / 2251799813685248),
      Fin (6305039478318695 / 9007199254740992),
      Fin (3602879701896397 / 4503599627370496),
      Fin (8106479329266893 / 9007199254740992),
      Fin 1]"
  unfolding upt_11
  by (simp add: produto_h01_0 produto_h01_1 produto_h01_2 produto_h01_3
      produto_h01_4 produto_h01_5 produto_h01_6 produto_h01_7 produto_h01_8 produto_h01_9
      produto_h01_10)

section \<open>The step 0.3000005 and the step 0.5\<close>

text \<open>
  The number nearest to \<open>0.3000005\<close> is \<open>2702164280021925 / 2^53\<close>. The lemmas below
  are the additions \<open>t = t + h\<close> of eight steps with this \<open>h\<close>, the products \<open>i * h\<close>,
  and what \<open>parseFloat(x.toFixed(6))\<close> makes of each.
\<close>

lemma quociente_25_h03:
  "Fin (5 / 2) / Fin (2702164280021925 / 9007199254740992) =
   Fin (4691241793107945 / 562949953421312)"
proof -
  have "arredonda ((5 / 2) / (2702164280021925 / 9007199254740992)) =
        Fin (4691241793107945 / 562949953421312)"
    by (rule arredonda_pos[where e = "3" and m = 4691241793107945])
      (simp_all add: round_even_def power_int_minus)
  then show ?thesis by (simp add: fin_div)
qed

lemma soma_h03_0:
  "Fin 0 + Fin (2702164280021925 / 9007199254740992) =
   Fin (2702164280021925 / 9007199254740992)"
proof -
  have "arredonda (0 + (2702164280021925 / 9007199254740992)) =
        Fin (2702164280021925 / 9007199254740992)"
    by (rule arredonda_pos[where e = "-2" and m = 5404328560043850])
      (simp_all add: round_even_def power_int_minus)
  then show ?thesis by (simp add: fin_add)
qed

lemma soma_h03_1:
  "Fin (2702164280021925 / 9007199254740992) + Fin (2702164280021925 / 9007199254740992) =
   Fin (2702164280021925 / 4503599627370496)"
proof -
  have "arredonda ((2702164280021925 / 9007199254740992) + (2702164280021925 / 9007199254740992)) =
        Fin (2702164280021925 / 4503599627370496)"
    by (rule arredonda_pos[where e = "-1" and m = 5404328560043850])
      (simp_all add: round_even_def power_int_minus)
  then show ?thesis by (simp add: fin_add)
qed

lemma soma_h03_2:
  "Fin (2702164280021925 / 4503599627370496) + Fin (2702164280021925 / 9007199254740992) =
   Fin (8106492840065775 / 9007199254740992)"
proof -
  have "arredonda ((2702164280021925 / 4503599627370496) + (2702164280021925 / 9007199254740992)) =
        Fin (8106492840065775 / 9007199254740992)"
    by (rule arredonda_pos[where e = "-1" and m = 8106492840065775])
      (simp_all add: round_even_def power_int_minus)
  then show ?thesis by (simp add: fin_add)
qed

lemma soma_h03_3:
  "Fin (8106492840065775 / 9007199254740992) + Fin (2702164280021925 / 9007199254740992) =
   Fin (2702164280021925 / 2251799813685248)"
proof -
  have "arredonda ((8106492840065775 / 9007199254740992) + (2702164280021925 / 9007199254740992)) =
        Fin (2702164280021925 / 2251799813685248)"
    by (rule arredonda_pos[where e = "0" and m = 5404328560043850])
      (simp_all add: round_even_def power_int_minus)
  then show ?thesis by (simp add: fin_add)
qed

lemma soma_h03_4:
  "Fin (2702164280021925 / 2251799813685248) + Fin (2702164280021925 / 9007199254740992) =
   Fin (1688852675013703 / 1125899906842624)"
proof -
  have "arredonda ((2702164280021925 / 2251799813685248) + (2702164280021925 / 9007199254740992)) =
        Fin (1688852675013703 / 1125899906842624)"
    by (rule arredonda_pos[where e = "0" and m = 6755410700054812])
      (simp_all add: round_even_def power_int_minus)
  then show ?thesis by (simp add: fin_add)
qed

lemma soma_h03_5:
  "Fin (1688852675013703 / 1125899906842624) + Fin (2702164280021925 / 9007199254740992) =
   Fin (4053246420032887 / 2251799813685248)"
proof -
  have "arredonda ((1688852675013703 / 1125899906842624) + (2702164280021925 / 9007199254740992)) =
        Fin (4053246420032887 / 2251799813685248)"
    by (rule arredonda_pos[where e = "0" and m = 8106492840065774])
      (simp_all add: round_even_def power_int_minus)
  then show ?thesis by (simp add: fin_add)
qed

lemma soma_h03_6:
  "Fin (4053246420032887 / 2251799813685248) + Fin (2702164280021925 / 9007199254740992) =
   Fin (147774609063699 / 70368744177664)"
proof -
  have "arredonda ((4053246420032887 / 2251799813685248) + (2702164280021925 / 9007199254740992)) =
        Fin (147774609063699 / 70368744177664)"
    by (rule arredonda_pos[where e = "1" and m = 4728787490038368])
      (simp_all add: round_even_def power_int_minus)
  then show ?thesis by (simp add: fin_add)
qed

lemma soma_h03_7:
  "Fin (147774609063699 / 70368744177664) + Fin (2702164280021925 / 9007199254740992) =
   Fin (5404328560043849 / 2251799813685248)"
proof -
  have "arredonda ((147774609063699 / 70368744177664) + (2702164280021925 / 9007199254740992)) =
        Fin (5404328560043849 / 2251799813685248)"
    by (rule arredonda_pos[where e = "1" and m = 5404328560043849])
      (simp_all add: round_even_def power_int_minus)
  then show ?thesis by (simp add: fin_add)
qed

lemma produto_h03_1:
  "Fin 1 * Fin (2702164280021925 / 9007199254740992) =
   Fin (2702164280021925 / 9007199254740992)"
proof -
  have "arredonda (1 * (2702164280021925 / 9007199254740992)) =
        Fin (2702164280021925 / 9007199254740992)"
    by (rule arredonda_pos[where e = "-2" and m = 5404328560043850])
      (simp_all add: round_even_def power_int_minus)
  then show ?thesis by (simp add: fin_mul)
qed

lemma produto_h03_2:
  "Fin 2 * Fin (2702164280021925 / 9007199254740992) =
   Fin (2702164280021925 / 4503599627370496)"
proof -
  have "arredonda (2 * (2702164280021925 / 9007199254740992)) =
        Fin (2702164280021925 / 4503599627370496)"
    by (rule arredonda_pos[where e = "-1" and m = 5404328560043850])
      (simp_all add: round_even_def power_int_minus)
  then show ?thesis by (simp add: fin_mul)
qed

lemma produto_h03_3:
  "Fin 3 * Fin (2702164280021925 / 9007199254740992) =
   Fin (8106492840065775 / 9007199254740992)"
proof -
  have "arredonda (3 * (2702164280021925 / 9007199254740992)) =
        Fin (8106492840065775 / 9007199254740992)"
    by (rule arredonda_pos[where e = "-1" and m = 8106492840065775])
      (simp_all add: round_even_def power_int_minus)
  then show ?thesis by (simp add: fin_mul)
qed

lemma produto_h03_4:
  "Fin 4 * Fin (2702164280021925 / 9007199254740992) =
   Fin (2702164280021925 / 2251799813685248)"
proof -
  have "arredonda (4 * (2702164280021925 / 9007199254740992)) =
        Fin (2702164280021925 / 2251799813685248)"
    by (rule arredonda_pos[where e = "0" and m = 5404328560043850])
      (simp_all add: round_even_def power_int_minus)
  then show ?thesis by (simp add: fin_mul)
qed

lemma produto_h03_5:
  "Fin 5 * Fin (2702164280021925 / 9007199254740992) =
   Fin (1688852675013703 / 1125899906842624)"
proof -
  have "arredonda (5 * (2702164280021925 / 9007199254740992)) =
        Fin (1688852675013703 / 1125899906842624)"
    by (rule arredonda_pos[where e = "0" and m = 6755410700054812])
      (simp_all add: round_even_def power_int_minus)
  then show ?thesis by (simp add: fin_mul)
qed

lemma produto_h03_6:
  "Fin 6 * Fin (2702164280021925 / 9007199254740992) =
   Fin (8106492840065775 / 4503599627370496)"
proof -
  have "arredonda (6 * (2702164280021925 / 9007199254740992)) =
        Fin (8106492840065775 / 4503599627370496)"
    by (rule arredonda_pos[where e = "0" and m = 8106492840065775])
      (simp_all add: round_even_def power_int_minus)
  then show ?thesis by (simp add: fin_mul)
qed

lemma produto_h03_7:
  "Fin 7 * Fin (2702164280021925 / 9007199254740992) =
   Fin (4728787490038369 / 2251799813685248)"
proof -
  have "arredonda (7 * (2702164280021925 / 9007199254740992)) =
        Fin (4728787490038369 / 2251799813685248)"
    by (rule arredonda_pos[where e = "1" and m = 4728787490038369])
      (simp_all add: round_even_def power_int_minus)
  then show ?thesis by (simp add: fin_mul)
qed

lemma produto_h03_8:
  "Fin 8 * Fin (2702164280021925 / 9007199254740992) =
   Fin (2702164280021925 / 1125899906842624)"
proof -
  have "arredonda (8 * (2702164280021925 / 9007199254740992)) =
        Fin (2702164280021925 / 1125899906842624)"
    by (rule arredonda_pos[where e = "1" and m = 5404328560043850])
      (simp_all add: round_even_def power_int_minus)
  then show ?thesis by (simp add: fin_mul)
qed

lemma toFixed6_h03_t1:
  "parseFloat_toFixed6 (Fin (2702164280021925 / 9007199254740992)) =
   Fin (5404337567243105 / 18014398509481984)"
proof -
  have "arredonda (300001 / 1000000) =
        Fin (5404337567243105 / 18014398509481984)"
    by (rule arredonda_pos[where e = "-2" and m = 5404337567243105])
      (simp_all add: round_even_def power_int_minus)
  then show ?thesis by (simp add: parseFloat_toFixed6.simps)
qed

lemma toFixed6_h03_t2:
  "parseFloat_toFixed6 (Fin (2702164280021925 / 4503599627370496)) =
   Fin (2702164280021925 / 4503599627370496)"
proof -
  have "arredonda (600001 / 1000000) =
        Fin (2702164280021925 / 4503599627370496)"
    by (rule arredonda_pos[where e = "-1" and m = 5404328560043850])
      (simp_all add: round_even_def power_int_minus)
  then show ?thesis by (simp add: parseFloat_toFixed6.simps)
qed

lemma toFixed6_h03_t3:
  "parseFloat_toFixed6 (Fin (8106492840065775 / 9007199254740992)) =
   Fin (4053248671832701 / 4503599627370496)"
proof -
  have "arredonda (900002 / 1000000) =
        Fin (4053248671832701 / 4503599627370496)"
    by (rule arredonda_pos[where e = "-1" and m = 8106497343665402])
      (simp_all add: round_even_def power_int_minus)
  then show ?thesis by (simp add: parseFloat_toFixed6.simps)
qed

lemma toFixed6_h03_t4:
  "parseFloat_toFixed6 (Fin (2702164280021925 / 2251799813685248)) =
   Fin (2702164280021925 / 2251799813685248)"
proof -
  have "arredonda (1200002 / 1000000) =
        Fin (2702164280021925 / 2251799813685248)"
    by (rule arredonda_pos[where e = "0" and m = 5404328560043850])
      (simp_all add: round_even_def power_int_minus)
  then show ?thesis by (simp add: parseFloat_toFixed6.simps)
qed

lemma toFixed6_h03_t5:
  "parseFloat_toFixed6 (Fin (1688852675013703 / 1125899906842624)) =
   Fin (6755408448254999 / 4503599627370496)"
proof -
  have "arredonda (1500002 / 1000000) =
        Fin (6755408448254999 / 4503599627370496)"
    by (rule arredonda_pos[where e = "0" and m = 6755408448254999])
      (simp_all add: round_even_def power_int_minus)
  then show ?thesis by (simp add: parseFloat_toFixed6.simps)
qed

lemma toFixed6_h03_t6:
  "parseFloat_toFixed6 (Fin (4053246420032887 / 2251799813685248)) =
   Fin (8106492840065775 / 4503599627370496)"
proof -
  have "arredonda (1800003 / 1000000) =
        Fin (8106492840065775 / 4503599627370496)"
    by (rule arredonda_pos[where e = "0" and m = 8106492840065775])
      (simp_all add: round_even_def power_int_minus)
  then show ?thesis by (simp add: parseFloat_toFixed6.simps)
qed

lemma toFixed6_h03_t7:
  "parseFloat_toFixed6 (Fin (147774609063699 / 70368744177664)) =
   Fin (2364393182069231 / 1125899906842624)"
proof -
  have "arredonda (2100003 / 1000000) =
        Fin (2364393182069231 / 1125899906842624)"
    by (rule arredonda_pos[where e = "1" and m = 4728786364138462])
      (simp_all add: round_even_def power_int_minus)
  then show ?thesis by (simp add: parseFloat_toFixed6.simps)
qed

lemma toFixed6_h03_t8:
  "parseFloat_toFixed6 (Fin (5404328560043849 / 2251799813685248)) =
   Fin (2702164280021925 / 1125899906842624)"
proof -
  have "arredonda (2400004 / 1000000) =
        Fin (2702164280021925 / 1125899906842624)"
    by (rule arredonda_pos[where e = "1" and m = 5404328560043850])
      (simp_all add: round_even_def power_int_minus)
  then show ?thesis by (simp add: parseFloat_toFixed6.simps)
qed

lemma toFixed6_h03_g6:
  "parseFloat_toFixed6 (Fin (8106492840065775 / 4503599627370496)) =
   Fin (8106492840065775 / 4503599627370496)"
proof -
  have "arredonda (1800003 / 1000000) =
        Fin (8106492840065775 / 4503599627370496)"
    by (rule arredonda_pos[where e = "0" and m = 8106492840065775])
      (simp_all add: round_even_def power_int_minus)
  then show ?thesis by (simp add: parseFloat_toFixed6.simps)
qed

lemma toFixed6_h03_g7:
  "parseFloat_toFixed6 (Fin (4728787490038369 / 2251799813685248)) =
   Fin (1182197153984569 / 562949953421312)"
proof -
  have "arredonda (2100004 / 1000000) =
        Fin (1182197153984569 / 562949953421312)"
    by (rule arredonda_pos[where e = "1" and m = 4728788615938276])
      (simp_all add: round_even_def power_int_minus)
  then show ?thesis by (simp add: parseFloat_toFixed6.simps)
qed

lemma toFixed6_h03_g8:
  "parseFloat_toFixed6 (Fin (2702164280021925 / 1125899906842624)) =
   Fin (2702164280021925 / 1125899906842624)"
proof -
  have "arredonda (2400004 / 1000000) =
        Fin (2702164280021925 / 1125899906842624)"
    by (rule arredonda_pos[where e = "1" and m = 5404328560043850])
      (simp_all add: round_even_def power_int_minus)
  then show ?thesis by (simp add: parseFloat_toFixed6.simps)
qed

lemma quociente_2_meio:
  "Fin 2 / Fin (1 / 2) =
   Fin 4"
proof -
  have "arredonda (2 / (1 / 2)) =
        Fin 4"
    by (rule arredonda_pos[where e = "2" and m = 4503599627370496])
      (simp_all add: round_even_def power_int_minus)
  then show ?thesis by (simp add: fin_div)
qed

lemma toFixed6_meio_1:
  "parseFloat_toFixed6 (Fin (1 / 2)) =
   Fin (1 / 2)"
proof -
  have "arredonda (500000 / 1000000) =
        Fin (1 / 2)"
    by (rule arredonda_pos[where e = "-1" and m = 4503599627370496])
      (simp_all add: round_even_def power_int_minus)
  then show ?thesis by (simp add: parseFloat_toFixed6.simps)
qed

lemma toFixed6_meio_2:
  "parseFloat_toFixed6 (Fin 1) =
   Fin 1"
proof -
  have "arredonda (1000000 / 1000000) =
        Fin 1"
    by (rule arredonda_pos[where e = "0" and m = 4503599627370496])
      (simp_all add: round_even_def power_int_minus)
  then show ?thesis by (simp add: parseFloat_toFixed6.simps)
qed

lemma toFixed6_meio_3:
  "parseFloat_toFixed6 (Fin (3 / 2)) =
   Fin (3 / 2)"
proof -
  have "arredonda (1500000 / 1000000) =
        Fin (3 / 2)"
    by (rule arredonda_pos[where e = "0" and m = 6755399441055744])
      (simp_all add: round_even_def power_int_minus)
  then show ?thesis by (simp add: parseFloat_toFixed6.simps)
qed

lemma toFixed6_meio_4:
  "parseFloat_toFixed6 (Fin 2) =
   Fin 2"
proof -
  have "arredonda (2000000 / 1000000) =
        Fin 2"
    by (rule arredonda_pos[where e = "1" and m = 4503599627370496])
      (simp_all add: round_even_def power_int_minus)
  then show ?thesis by (simp add: parseFloat_toFixed6.simps)
qed

lemma produto_h03_0: "Fin 0 * Fin (2702164280021925 / 9007199254740992) = Fin 0"
  by (simp add: fin_mul zero_com_sinal_def)

lemma upt_9: "[0..<9] = [0, 1, 2, 3, 4, 5, 6, 7, 8::nat]"
  by (simp add: upt_rec)

lemma upt_5: "[0..<5] = [0, 1, 2, 3, 4::nat]"
  by (simp add: upt_rec)

lemma tempo_modulo_h03:
  "map parseFloat_toFixed6 (map (t_acum (Fin (2702164280021925 / 9007199254740992))) [0..<9]) =
     [Fin 0,
      Fin (5404337567243105 / 18014398509481984),
      Fin (2702164280021925 / 4503599627370496),
      Fin (4053248671832701 / 4503599627370496),
      Fin (2702164280021925 / 2251799813685248),
      Fin (6755408448254999 / 4503599627370496),
      Fin (8106492840065775 / 4503599627370496),
      Fin (2364393182069231 / 1125899906842624),
      Fin (2702164280021925 / 1125899906842624)]"
  unfolding upt_9
  by (simp add: eval_nat_numeral toFixed6_zero soma_h03_0 soma_h03_1 soma_h03_2 soma_h03_3 soma_h03_4 soma_h03_5 soma_h03_6 soma_h03_7
      toFixed6_h03_t1 toFixed6_h03_t2 toFixed6_h03_t3 toFixed6_h03_t4 toFixed6_h03_t5 toFixed6_h03_t6 toFixed6_h03_t7 toFixed6_h03_t8 toFixed6_h03_g6 toFixed6_h03_g7 toFixed6_h03_g8)

lemma grade_h03:
  "map (\<lambda>i. parseFloat_toFixed6 (Fin (real i) * Fin (2702164280021925 / 9007199254740992))) [0..<9] =
     [Fin 0,
      Fin (5404337567243105 / 18014398509481984),
      Fin (2702164280021925 / 4503599627370496),
      Fin (4053248671832701 / 4503599627370496),
      Fin (2702164280021925 / 2251799813685248),
      Fin (6755408448254999 / 4503599627370496),
      Fin (8106492840065775 / 4503599627370496),
      Fin (1182197153984569 / 562949953421312),
      Fin (2702164280021925 / 1125899906842624)]"
  unfolding upt_9
  by (simp add: toFixed6_zero produto_h03_0 produto_h03_1 produto_h03_2 produto_h03_3 produto_h03_4 produto_h03_5 produto_h03_6 produto_h03_7 produto_h03_8
      toFixed6_h03_t1 toFixed6_h03_t2 toFixed6_h03_t3 toFixed6_h03_t4 toFixed6_h03_t5 toFixed6_h03_t6 toFixed6_h03_t7 toFixed6_h03_t8 toFixed6_h03_g6 toFixed6_h03_g7 toFixed6_h03_g8)

section \<open>The stored times\<close>

lemma tempos_inline:
  "map_option (map_saida (map pt_t))
     (Some (Retorna (map (ponto_i F (\<lambda>t. t) h y0) [0..<Suc n]))) =
   Some (Retorna (tempos_acumulados h n))"
  by (simp add: tempos_acumulados_def ponto_i_def del: upt_Suc)

lemma tempos_modulo:
  "map_option (map_saida (map pt_t))
     (Some (Retorna (map (ponto_i F parseFloat_toFixed6 h y0) [0..<Suc n]))) =
   Some (Retorna (map parseFloat_toFixed6 (tempos_acumulados h n)))"
  by (simp add: tempos_acumulados_def ponto_i_def toFixed6_zero del: upt_Suc)

text \<open>
  C6, as amended. For every \<open>r\<close>, \<open>K\<close>, \<open>y0\<close> and every \<open>h > 0\<close>, \<open>tf > 0\<close> for which
  \<open>tf / h\<close> evaluates to a number \<open>q\<close> below \<open>2^53\<close>: the time stored in the point at
  index \<open>i\<close> is the time accumulated by \<open>i\<close> rounded additions \<open>t = t + h\<close>, stored as
  it is by the inline integrators and after \<open>parseFloat(t.toFixed(6))\<close> by the modules
  of Euler and RK4, while the grids of the comparators hold the products \<open>i * h\<close>
  (\<open>ModeloLogisticoMultiplo\<close>) and \<open>parseFloat((i * h).toFixed(6))\<close>
  (\<open>ModeloLogisticoCorrigido\<close>). The two agree when the additions are exact: for a
  step \<open>h = j * 2^s\<close> with \<open>(floor(q) + 1) * j \<le> 2^53\<close>, which every step of the sliders
  (a multiple of \<open>0.5\<close>) is. Stated for every \<open>h\<close>, the agreement fails: the
  counterexample below has the step \<open>0.1\<close> for the inline Euler integrator and the
  step \<open>0.3000005\<close> for the RK4 module.
\<close>

theorem tempo_armazenado:
  assumes "0 < h" and "0 < tf" and "Fin tf / Fin h = Fin q" and "q < 2 ^ 53"
  shows "map_option (map_saida (map pt_t)) (euler_inline r K y0 (Fin tf) (Fin h)) =
           Some (Retorna (tempos_acumulados (Fin h) (nat \<lfloor>q\<rfloor>))) \<and>
         map_option (map_saida (map pt_t)) (eulerAprimorado_inline r K y0 (Fin tf) (Fin h)) =
           Some (Retorna (tempos_acumulados (Fin h) (nat \<lfloor>q\<rfloor>))) \<and>
         map_option (map_saida (map pt_t)) (rungeKutta4_inline r K y0 (Fin tf) (Fin h)) =
           Some (Retorna (tempos_acumulados (Fin h) (nat \<lfloor>q\<rfloor>))) \<and>
         map_option (map_saida (map pt_t)) (euler r K y0 (Fin tf) (Fin h)) =
           Some (Retorna (map parseFloat_toFixed6 (tempos_acumulados (Fin h) (nat \<lfloor>q\<rfloor>)))) \<and>
         map_option (map_saida (map pt_t)) (rungeKutta4 r K y0 (Fin tf) (Fin h)) =
           Some (Retorna (map parseFloat_toFixed6 (tempos_acumulados (Fin h) (nat \<lfloor>q\<rfloor>)))) \<and>
         tempos_multiplo (Fin tf) (Fin h) =
           Some (map (\<lambda>i. Fin (real i) * Fin h) [0..<Suc (nat \<lfloor>q\<rfloor>)]) \<and>
         tempos_corrigido (Fin tf) (Fin h) =
           Some (map (\<lambda>i. parseFloat_toFixed6 (Fin (real i) * Fin h)) [0..<Suc (nat \<lfloor>q\<rfloor>)]) \<and>
         (\<forall>j s. 0 < j \<and> - 1022 \<le> s \<and> s \<le> 970 \<and> h = of_int j * 2 powi s \<and>
                (\<lfloor>q\<rfloor> + 1) * j \<le> 2 ^ 53 \<longrightarrow>
            tempos_acumulados (Fin h) (nat \<lfloor>q\<rfloor>) =
              map (\<lambda>i. Fin (real i) * Fin h) [0..<Suc (nat \<lfloor>q\<rfloor>)])"
proof -
  have q: "0 \<le> q" by (rule quociente_nao_negativo[OF assms(1-3)])
  then have n: "int (nat \<lfloor>q\<rfloor>) = \<lfloor>q\<rfloor>" by simp
  have alinhado: "\<And>j s. 0 < j \<and> - 1022 \<le> s \<and> s \<le> 970 \<and> h = of_int j * 2 powi s \<and>
                (\<lfloor>q\<rfloor> + 1) * j \<le> 2 ^ 53 \<Longrightarrow>
            tempos_acumulados (Fin h) (nat \<lfloor>q\<rfloor>) =
              map (\<lambda>i. Fin (real i) * Fin h) [0..<Suc (nat \<lfloor>q\<rfloor>)]"
  proof -
    fix j s
    assume a: "0 < j \<and> - 1022 \<le> s \<and> s \<le> 970 \<and> h = of_int j * 2 powi s \<and>
                (\<lfloor>q\<rfloor> + 1) * j \<le> 2 ^ 53"
    then have "(int (nat \<lfloor>q\<rfloor>) + 1) * j \<le> 2 ^ 53" using n by simp
    with a have "tempos_acumulados (Fin (of_int j * 2 powi s)) (nat \<lfloor>q\<rfloor>) =
         map (\<lambda>i. Fin (real i) * Fin (of_int j * 2 powi s)) [0..<Suc (nat \<lfloor>q\<rfloor>)]"
      by (intro tempos_alinhados) simp_all
    with a show "tempos_acumulados (Fin h) (nat \<lfloor>q\<rfloor>) =
              map (\<lambda>i. Fin (real i) * Fin h) [0..<Suc (nat \<lfloor>q\<rfloor>)]" by simp
  qed
  show ?thesis
    unfolding euler_fin[OF assms(3)] rungeKutta4_fin[OF assms(3)]
      euler_inline_fin[OF assms(3)] eulerAprimorado_inline_fin[OF assms(3)]
      rungeKutta4_inline_fin[OF assms(3)] tempos_inline tempos_modulo
      tempos_multiplo_fin[OF assms(3) q assms(4)] tempos_corrigido_fin[OF assms(3) q assms(4)]
    using alinhado by blast
qed

theorem tempo_armazenado_witness:
  "(0::real) < 1 / 2 \<and> (0::real) < 2 \<and> Fin 2 / Fin (1 / 2) = Fin 4 \<and> (4::real) < 2 ^ 53 \<and>
   map_option (map_saida (map pt_t))
     (euler_inline (Fin (1 / 2)) (Fin 1) (Fin (1 / 2)) (Fin 2) (Fin (1 / 2))) =
     Some (Retorna [Fin 0, Fin (1 / 2), Fin 1, Fin (3 / 2), Fin 2]) \<and>
   tempos_multiplo (Fin 2) (Fin (1 / 2)) = Some [Fin 0, Fin (1 / 2), Fin 1, Fin (3 / 2), Fin 2] \<and>
   map_option (map_saida (map pt_t))
     (rungeKutta4 (Fin (1 / 2)) (Fin 1) (Fin (1 / 2)) (Fin 2) (Fin (1 / 2))) =
     Some (Retorna [Fin 0, Fin (1 / 2), Fin 1, Fin (3 / 2), Fin 2]) \<and>
   tempos_corrigido (Fin 2) (Fin (1 / 2)) = Some [Fin 0, Fin (1 / 2), Fin 1, Fin (3 / 2), Fin 2]"
proof -
  have a: "(0::real) < 1 / 2" and b: "(0::real) < 2" and c: "(4::real) < 2 ^ 53" by simp_all
  note t = tempo_armazenado[OF a b quociente_2_meio c, of "Fin (1 / 2)" "Fin 1" "Fin (1 / 2)"]
  have g: "map (\<lambda>i. Fin (real i) * Fin (1 / 2)) [0..<5] = [Fin 0, Fin (1 / 2), Fin 1, Fin (3 / 2), Fin 2]"
    unfolding upt_5
    using grade_diadica[of 1 "- 1" 0] grade_diadica[of 1 "- 1" 1] grade_diadica[of 1 "- 1" 2]
      grade_diadica[of 1 "- 1" 3] grade_diadica[of 1 "- 1" 4]
    by (simp add: power_int_minus)
  have n: "Suc (nat \<lfloor>4::real\<rfloor>) = 5" by simp
  from t have "tempos_acumulados (Fin (1 / 2)) (nat \<lfloor>4::real\<rfloor>) =
      map (\<lambda>i. Fin (real i) * Fin (1 / 2)) [0..<Suc (nat \<lfloor>4::real\<rfloor>)]"
    by (elim conjE allE[of _ 1] allE[of _ "- 1"]) (simp add: power_int_minus)
  then have ac: "tempos_acumulados (Fin (1 / 2)) (nat \<lfloor>4::real\<rfloor>) =
      [Fin 0, Fin (1 / 2), Fin 1, Fin (3 / 2), Fin 2]"
    unfolding n g .
  have f: "map parseFloat_toFixed6 [Fin 0, Fin (1 / 2), Fin 1, Fin (3 / 2), Fin 2] =
      [Fin 0, Fin (1 / 2), Fin 1, Fin (3 / 2), Fin 2]"
    using toFixed6_meio_1 toFixed6_meio_2 toFixed6_meio_3 toFixed6_meio_4
    by (simp add: toFixed6_zero)
  have 1: "map_option (map_saida (map pt_t))
     (euler_inline (Fin (1 / 2)) (Fin 1) (Fin (1 / 2)) (Fin 2) (Fin (1 / 2))) =
     Some (Retorna [Fin 0, Fin (1 / 2), Fin 1, Fin (3 / 2), Fin 2])"
    using t ac by simp
  have 2: "tempos_multiplo (Fin 2) (Fin (1 / 2)) =
      Some [Fin 0, Fin (1 / 2), Fin 1, Fin (3 / 2), Fin 2]"
    using t unfolding n g by simp
  have 3: "map_option (map_saida (map pt_t))
     (rungeKutta4 (Fin (1 / 2)) (Fin 1) (Fin (1 / 2)) (Fin 2) (Fin (1 / 2))) =
     Some (Retorna [Fin 0, Fin (1 / 2), Fin 1, Fin (3 / 2), Fin 2])"
    using t ac f by simp
  have "map (\<lambda>i. parseFloat_toFixed6 (Fin (real i) * Fin (1 / 2))) [0..<5] =
      map parseFloat_toFixed6 (map (\<lambda>i. Fin (real i) * Fin (1 / 2)) [0..<5])"
    by (simp add: comp_def del: upt_Suc)
  then have 4: "tempos_corrigido (Fin 2) (Fin (1 / 2)) =
      Some [Fin 0, Fin (1 / 2), Fin 1, Fin (3 / 2), Fin 2]"
    using t unfolding n g f by simp
  show ?thesis using a b c quociente_2_meio 1 2 3 4 by blast
qed

theorem tempo_armazenado_counterexample:
  "map_option (map_saida (map pt_t))
     (euler_inline (Fin (1 / 2)) (Fin 1) (Fin (1 / 2)) (Fin 1)
        (Fin (3602879701896397 / 36028797018963968))) =
     Some (Retorna
       [Fin 0,
        Fin (3602879701896397 / 36028797018963968),
        Fin (3602879701896397 / 18014398509481984),
        Fin (1351079888211149 / 4503599627370496),
        Fin (3602879701896397 / 9007199254740992),
        Fin (1 / 2),
        Fin (5404319552844595 / 9007199254740992),
        Fin (3152519739159347 / 4503599627370496),
        Fin (7205759403792793 / 9007199254740992),
        Fin (2026619832316723 / 2251799813685248),
        Fin (9007199254740991 / 9007199254740992)]) \<and>
   tempos_multiplo (Fin 1) (Fin (3602879701896397 / 36028797018963968)) =
     Some
       [Fin 0,
        Fin (3602879701896397 / 36028797018963968),
        Fin (3602879701896397 / 18014398509481984),
        Fin (1351079888211149 / 4503599627370496),
        Fin (3602879701896397 / 9007199254740992),
        Fin (1 / 2),
        Fin (1351079888211149 / 2251799813685248),
        Fin (6305039478318695 / 9007199254740992),
        Fin (3602879701896397 / 4503599627370496),
        Fin (8106479329266893 / 9007199254740992),
        Fin 1] \<and>
   map_option (map_saida (map pt_t))
     (rungeKutta4 (Fin (1 / 2)) (Fin 1) (Fin (1 / 2)) (Fin (5 / 2))
        (Fin (2702164280021925 / 9007199254740992))) =
     Some (Retorna
       [Fin 0,
        Fin (5404337567243105 / 18014398509481984),
        Fin (2702164280021925 / 4503599627370496),
        Fin (4053248671832701 / 4503599627370496),
        Fin (2702164280021925 / 2251799813685248),
        Fin (6755408448254999 / 4503599627370496),
        Fin (8106492840065775 / 4503599627370496),
        Fin (2364393182069231 / 1125899906842624),
        Fin (2702164280021925 / 1125899906842624)]) \<and>
   tempos_corrigido (Fin (5 / 2)) (Fin (2702164280021925 / 9007199254740992)) =
     Some
       [Fin 0,
        Fin (5404337567243105 / 18014398509481984),
        Fin (2702164280021925 / 4503599627370496),
        Fin (4053248671832701 / 4503599627370496),
        Fin (2702164280021925 / 2251799813685248),
        Fin (6755408448254999 / 4503599627370496),
        Fin (8106492840065775 / 4503599627370496),
        Fin (1182197153984569 / 562949953421312),
        Fin (2702164280021925 / 1125899906842624)]"
proof -
  have n10: "Suc (nat \<lfloor>10::real\<rfloor>) = 11" by simp
  have n8: "Suc (nat \<lfloor>4691241793107945 / 562949953421312 :: real\<rfloor>) = 9" by simp
  have q10: "(0::real) \<le> 10" "(10::real) < 2 ^ 53" by simp_all
  have q8: "(0::real) \<le> 4691241793107945 / 562949953421312"
    "(4691241793107945 / 562949953421312 :: real) < 2 ^ 53" by simp_all
  have 1: "map_option (map_saida (map pt_t))
     (euler_inline (Fin (1 / 2)) (Fin 1) (Fin (1 / 2)) (Fin 1)
        (Fin (3602879701896397 / 36028797018963968))) =
     Some (Retorna (tempos_acumulados (Fin (3602879701896397 / 36028797018963968))
       (nat \<lfloor>10::real\<rfloor>)))"
    unfolding euler_inline_fin[OF quociente_1_h01] by (rule tempos_inline)
  have 3: "map_option (map_saida (map pt_t))
     (rungeKutta4 (Fin (1 / 2)) (Fin 1) (Fin (1 / 2)) (Fin (5 / 2))
        (Fin (2702164280021925 / 9007199254740992))) =
     Some (Retorna (map parseFloat_toFixed6
       (tempos_acumulados (Fin (2702164280021925 / 9007199254740992))
          (nat \<lfloor>4691241793107945 / 562949953421312 :: real\<rfloor>))))"
    unfolding rungeKutta4_fin[OF quociente_25_h03] by (rule tempos_modulo)
  show ?thesis
    unfolding 1 3 tempos_multiplo_fin[OF quociente_1_h01 q10]
      tempos_corrigido_fin[OF quociente_25_h03 q8] tempos_acumulados_def n10 n8
      t_acum_h01 grade_h01 tempo_modulo_h03 grade_h03
    by (intro conjI refl)
qed

section \<open>The analytic solution\<close>

lemma arredonda_oposto: "x \<noteq> 0 \<Longrightarrow> arredonda (- x) = - arredonda x"
  by (auto simp add: arredonda_def Let_def zero_com_sinal_def infinito_com_sinal_def
      uminus_jsnum_def js_neg_def)

lemma negativo_oposto: "a \<noteq> NaN \<Longrightarrow> negativo (- a) = (\<not> negativo a)"
  by (cases a) (auto simp add: uminus_jsnum_def js_neg_def)

lemma finito_oposto: "finito (- a) = finito a"
  by (cases a) (auto simp add: uminus_jsnum_def js_neg_def)

lemma valor_oposto: "valor (- a) = - valor a"
  by (cases a) (auto simp add: uminus_jsnum_def js_neg_def)

lemma oposto_NaN: "(- a = NaN) = (a = NaN)"
  by (cases a) (auto simp add: uminus_jsnum_def js_neg_def)

lemma oposto_de_NaN: "- NaN = NaN"
  by (simp add: uminus_jsnum_def js_neg_def)

lemma oposto_zero_com_sinal: "- zero_com_sinal b = zero_com_sinal (\<not> b)"
  by (simp add: zero_com_sinal_def uminus_jsnum_def js_neg_def)

lemma oposto_infinito_com_sinal: "- infinito_com_sinal b = infinito_com_sinal (\<not> b)"
  by (simp add: infinito_com_sinal_def uminus_jsnum_def js_neg_def)

lemma oposto_produto: "- r * t = - (r * (t::jsnum))"
proof (cases "r = NaN \<or> t = NaN")
  case True
  then show ?thesis
    by (auto simp add: times_jsnum_def js_mul_def oposto_NaN) (simp_all add: uminus_jsnum_def js_neg_def)
next
  case False
  then have r: "r \<noteq> NaN" and t: "t \<noteq> NaN" by simp_all
  show ?thesis
  proof (cases "finito r \<and> finito t")
    case True
    show ?thesis
    proof (cases "valor r * valor t = 0")
      case True
      with \<open>finito r \<and> finito t\<close> r t show ?thesis
        unfolding times_jsnum_def js_mul_def
        by (auto simp add: oposto_NaN finito_oposto valor_oposto negativo_oposto
            oposto_zero_com_sinal)
    next
      case False
      with \<open>finito r \<and> finito t\<close> r t show ?thesis
        unfolding times_jsnum_def js_mul_def
        using arredonda_oposto[of "valor r * valor t"]
        by (simp add: oposto_NaN finito_oposto valor_oposto)
    qed
  next
    case False
    with r t show ?thesis
      unfolding times_jsnum_def js_mul_def
      by (auto simp add: oposto_NaN finito_oposto valor_oposto negativo_oposto
          oposto_infinito_com_sinal oposto_de_NaN)
  qed
qed

lemma exp_em_zero: "finito r \<Longrightarrow> Math_exp aprox (- r * Fin 0) = Fin 1"
  by (cases r)
    (auto simp add: uminus_jsnum_def js_neg_def times_jsnum_def js_mul_def zero_com_sinal_def)

lemma exata_em_zero:
  "finito r \<Longrightarrow>
   solucaoExata aprox (Fin 0) r K y0 = (K * y0) / (y0 + (K - y0) * Fin 1)"
  by (simp add: solucaoExata_def exp_em_zero)

lemma exata_em_zero_exata:
  assumes "finito r" and "K \<noteq> 0" and "y0 \<noteq> 0"
    and "arredonda K = Fin K" and "arredonda y0 = Fin y0"
    and "K = y0 \<or> arredonda (K - y0) = Fin (K - y0)"
    and "arredonda (K * y0) = Fin (K * y0)"
  shows "solucaoExata aprox (Fin 0) r (Fin K) (Fin y0) = Fin y0"
proof -
  have d: "Fin K - Fin y0 = Fin (K - y0)" using assms(6) by (auto simp add: fin_sub)
  have d1: "Fin (K - y0) * Fin 1 = Fin (K - y0)"
    using assms(6) by (auto simp add: fin_mul zero_com_sinal_def)
  have s: "Fin y0 + Fin (K - y0) = Fin K" using assms(2,4) by (simp add: fin_add)
  have p: "Fin K * Fin y0 = Fin (K * y0)" using assms(2,3,7) by (simp add: fin_mul)
  have q: "Fin (K * y0) / Fin K = Fin y0" using assms(2,3,5) by (simp add: fin_div)
  show ?thesis
    unfolding exata_em_zero[OF assms(1)] d d1 s p q by (rule refl)
qed

text \<open>
  Examples: \<open>K = 0.6\<close> with \<open>y0 = 0.9\<close>, \<open>K = 1\<close> with \<open>y0 = 2^54\<close>, and \<open>K = y0 = 1.9\<close>.
  The numbers nearest to \<open>0.6\<close>, \<open>0.9\<close> and \<open>1.9\<close> are \<open>5404319552844595 / 2^53\<close>,
  \<open>8106479329266893 / 2^53\<close> and \<open>4278419646001971 / 2^51\<close>.
\<close>

lemma c3_dif:
  "Fin (5404319552844595 / 9007199254740992) - Fin (8106479329266893 / 9007199254740992) =
   Fin (- (1351079888211149 / 4503599627370496))"
proof -
  have "arredonda ((5404319552844595 / 9007199254740992) - (8106479329266893 / 9007199254740992)) =
        Fin (- (1351079888211149 / 4503599627370496))"
    by (rule arredonda_neg[where e = "-2" and m = 5404319552844596])
      (simp_all add: round_even_def power_int_minus)
  then show ?thesis by (simp add: fin_sub)
qed

lemma c3_dif_1:
  "Fin (- (1351079888211149 / 4503599627370496)) * Fin 1 =
   Fin (- (1351079888211149 / 4503599627370496))"
proof -
  have "arredonda ((- (1351079888211149 / 4503599627370496)) * 1) =
        Fin (- (1351079888211149 / 4503599627370496))"
    by (rule arredonda_neg[where e = "-2" and m = 5404319552844596])
      (simp_all add: round_even_def power_int_minus)
  then show ?thesis by (simp add: fin_mul)
qed

lemma c3_den:
  "Fin (8106479329266893 / 9007199254740992) + Fin (- (1351079888211149 / 4503599627370496)) =
   Fin (5404319552844595 / 9007199254740992)"
proof -
  have "arredonda ((8106479329266893 / 9007199254740992) + (- (1351079888211149 / 4503599627370496))) =
        Fin (5404319552844595 / 9007199254740992)"
    by (rule arredonda_pos[where e = "-1" and m = 5404319552844595])
      (simp_all add: round_even_def power_int_minus)
  then show ?thesis by (simp add: fin_add)
qed

lemma c3_num:
  "Fin (5404319552844595 / 9007199254740992) * Fin (8106479329266893 / 9007199254740992) =
   Fin (607985949695017 / 1125899906842624)"
proof -
  have "arredonda ((5404319552844595 / 9007199254740992) * (8106479329266893 / 9007199254740992)) =
        Fin (607985949695017 / 1125899906842624)"
    by (rule arredonda_pos[where e = "-1" and m = 4863887597560136])
      (simp_all add: round_even_def power_int_minus)
  then show ?thesis by (simp add: fin_mul)
qed

lemma c3_quo:
  "Fin (607985949695017 / 1125899906842624) / Fin (5404319552844595 / 9007199254740992) =
   Fin (4053239664633447 / 4503599627370496)"
proof -
  have "arredonda ((607985949695017 / 1125899906842624) / (5404319552844595 / 9007199254740992)) =
        Fin (4053239664633447 / 4503599627370496)"
    by (rule arredonda_pos[where e = "-1" and m = 8106479329266894])
      (simp_all add: round_even_def power_int_minus)
  then show ?thesis by (simp add: fin_div)
qed

lemma c3b_dif:
  "Fin 1 - Fin 18014398509481984 =
   Fin (- 18014398509481984)"
proof -
  have "arredonda (1 - 18014398509481984) =
        Fin (- 18014398509481984)"
    by (rule arredonda_neg[where e = "53" and m = 9007199254740992])
      (simp_all add: round_even_def power_int_minus)
  then show ?thesis by (simp add: fin_sub)
qed

lemma c3b_dif_1:
  "Fin (- 18014398509481984) * Fin 1 =
   Fin (- 18014398509481984)"
proof -
  have "arredonda ((- 18014398509481984) * 1) =
        Fin (- 18014398509481984)"
    by (rule arredonda_neg[where e = "54" and m = 4503599627370496])
      (simp_all add: round_even_def power_int_minus)
  then show ?thesis by (simp add: fin_mul)
qed

lemma c3b_num:
  "Fin 1 * Fin 18014398509481984 =
   Fin 18014398509481984"
proof -
  have "arredonda (1 * 18014398509481984) =
        Fin 18014398509481984"
    by (rule arredonda_pos[where e = "54" and m = 4503599627370496])
      (simp_all add: round_even_def power_int_minus)
  then show ?thesis by (simp add: fin_mul)
qed




lemma c3b_den: "Fin 18014398509481984 + Fin (- 18014398509481984) = Fin 0"
  by (simp add: fin_add)

lemma c3b_quo: "Fin 18014398509481984 / Fin 0 = PInf"
  by (simp add: fin_div_zero)

lemma arredonda_meio: "arredonda (1 / 2) = Fin (1 / 2)"
  using arredonda_diadico[of 1 "- 1"] by (simp add: power_int_minus)

text \<open>
  C3, as amended. For every \<open>t\<close>, \<open>r\<close>, \<open>K\<close>, \<open>y0\<close> the analytic-solution function
  returns \<open>K * y0 / (y0 + (K - y0) * e^(-(r * t)))\<close> evaluated in the arithmetic of
  numbers, with the engine's exponential. At \<open>t = 0\<close> and a finite \<open>r\<close> the
  exponential is exactly \<open>1\<close> and the value is \<open>(K * y0) / (y0 + (K - y0) * 1)\<close>, each
  operation rounded; it is \<open>y0\<close> when \<open>K\<close> and \<open>y0\<close> are numbers other than zero whose
  difference and product need no rounding. Stated for every \<open>K\<close> and \<open>y0\<close>, the
  equality with \<open>y0\<close> fails: the counterexample below has \<open>0.9000000000000001\<close> in
  place of \<open>y0 = 0.9\<close>, and \<open>Infinity\<close> in place of \<open>y0 = 2^54\<close>.
\<close>

theorem solucaoExata_formula:
  "solucaoExata aprox t r K y0 = formula_exata (Math_exp aprox) t r K y0 \<and>
   (finito r \<longrightarrow>
      solucaoExata aprox (Fin 0) r K y0 = (K * y0) / (y0 + (K - y0) * Fin 1)) \<and>
   (finito r \<and> K' \<noteq> 0 \<and> y0' \<noteq> 0 \<and> arredonda K' = Fin K' \<and> arredonda y0' = Fin y0' \<and>
    (K' = y0' \<or> arredonda (K' - y0') = Fin (K' - y0')) \<and>
    arredonda (K' * y0') = Fin (K' * y0') \<longrightarrow>
      solucaoExata aprox (Fin 0) r (Fin K') (Fin y0') = Fin y0')"
  using exata_em_zero[of r aprox K y0] exata_em_zero_exata[of r K' y0' aprox]
  by (simp add: solucaoExata_def formula_exata_def oposto_produto)

theorem solucaoExata_formula_witness:
  "solucaoExata exp_arredondada (Fin 3) (Fin (1 / 2)) (Fin 1) (Fin (1 / 2)) =
     formula_exata (Math_exp exp_arredondada) (Fin 3) (Fin (1 / 2)) (Fin 1) (Fin (1 / 2)) \<and>
   finito (Fin (1 / 2)) \<and>
   solucaoExata exp_arredondada (Fin 0) (Fin (1 / 2)) (Fin 1) (Fin (1 / 2)) =
     (Fin 1 * Fin (1 / 2)) / (Fin (1 / 2) + (Fin 1 - Fin (1 / 2)) * Fin 1) \<and>
   (1::real) \<noteq> 0 \<and> (1 / 2 :: real) \<noteq> 0 \<and>
   arredonda 1 = Fin 1 \<and> arredonda (1 / 2) = Fin (1 / 2) \<and>
   arredonda (1 - 1 / 2) = Fin (1 - 1 / 2) \<and> arredonda (1 * (1 / 2)) = Fin (1 * (1 / 2)) \<and>
   solucaoExata exp_arredondada (Fin 0) (Fin (1 / 2)) (Fin 1) (Fin (1 / 2)) = Fin (1 / 2)"
proof -
  note a = solucaoExata_formula[of exp_arredondada "Fin 3" "Fin (1 / 2)" "Fin 1" "Fin (1 / 2)"
      1 "1 / 2"]
  note b = solucaoExata_formula[of exp_arredondada "Fin 0" "Fin (1 / 2)" "Fin 1" "Fin (1 / 2)"
      1 "1 / 2"]
  have f: "finito (Fin (1 / 2))" by simp
  have 1: "solucaoExata exp_arredondada (Fin 3) (Fin (1 / 2)) (Fin 1) (Fin (1 / 2)) =
     formula_exata (Math_exp exp_arredondada) (Fin 3) (Fin (1 / 2)) (Fin 1) (Fin (1 / 2))"
    using a by blast
  have 2: "solucaoExata exp_arredondada (Fin 0) (Fin (1 / 2)) (Fin 1) (Fin (1 / 2)) =
     (Fin 1 * Fin (1 / 2)) / (Fin (1 / 2) + (Fin 1 - Fin (1 / 2)) * Fin 1)"
    using b f by blast
  have e1: "arredonda (1 - 1 / 2) = Fin (1 - 1 / 2)" using arredonda_meio by simp
  have e2: "arredonda (1 * (1 / 2)) = Fin (1 * (1 / 2))" using arredonda_meio by simp
  have n: "(1::real) \<noteq> 0" "(1 / 2 :: real) \<noteq> 0" by simp_all
  have 3: "solucaoExata exp_arredondada (Fin 0) (Fin (1 / 2)) (Fin 1) (Fin (1 / 2)) = Fin (1 / 2)"
    using b f n arredonda_1 arredonda_meio e1 e2 by blast
  show ?thesis using 1 2 3 f n arredonda_1 arredonda_meio e1 e2 by blast
qed

theorem solucaoExata_formula_counterexample:
  "solucaoExata exp_arredondada (Fin 0) (Fin (3602879701896397 / 72057594037927936))
     (Fin (5404319552844595 / 9007199254740992)) (Fin (8106479329266893 / 9007199254740992)) =
     Fin (4053239664633447 / 4503599627370496) \<and>
   Fin (4053239664633447 / 4503599627370496) \<noteq>
     Fin (8106479329266893 / 9007199254740992) \<and>
   solucaoExata exp_arredondada (Fin 0) (Fin (3602879701896397 / 72057594037927936))
     (Fin 1) (Fin 18014398509481984) = PInf"
  by (simp add: exata_em_zero c3_dif c3_dif_1 c3_den c3_num c3_quo
      c3b_dif c3b_dif_1 c3b_den c3b_num c3b_quo)

section \<open>The fixed point \<open>y = K\<close>\<close>




















end
